theory Spec2Isabelle
  imports Complex_Main "HOL-Library.Word"
begin

section \<open>Strings of the host language\<close>

text \<open>
  A string of the program is a sequence of 16-bit code units. Literals of the source are
  written \<open>js ''...''\<close>.
\<close>

type_synonym jsstring = "16 word list"

definition js :: "string \<Rightarrow> jsstring" where
  "js s = map of_char s"

text \<open>
  White space and line terminators as \<open>String.prototype.trim\<close> strips them.
\<close>

definition is_space :: "16 word \<Rightarrow> bool" where
  "is_space c \<longleftrightarrow>
     c = 0x09 \<or> c = 0x0A \<or> c = 0x0B \<or> c = 0x0C \<or> c = 0x0D \<or> c = 0x20 \<or> c = 0xA0
     \<or> c = 0x1680 \<or> (0x2000 \<le> c \<and> c \<le> 0x200A) \<or> c = 0x2028 \<or> c = 0x2029
     \<or> c = 0x202F \<or> c = 0x205F \<or> c = 0x3000 \<or> c = 0xFEFF"

definition trim :: "jsstring \<Rightarrow> jsstring" where
  "trim s = rev (dropWhile is_space (rev (dropWhile is_space s)))"

section \<open>Theme resolution\<close>

text \<open>
  Elements are known by identity. The host supplies the computed style:
  \<open>computed env el name\<close> is \<open>getComputedStyle(el).getPropertyValue(name)\<close>, the empty
  string where the property is not set; \<open>documentElement env\<close> is the document's root.
  The host also bounds the number of arguments of one call, and hosts differ in the bound;
  the smallest in use is 65536, and \<open>argument_headroom env\<close> is what this host takes
  beyond that.
\<close>

type_synonym eid = nat

record env =
  computed :: "eid \<Rightarrow> jsstring \<Rightarrow> jsstring"
  documentElement :: eid
  argument_headroom :: nat

definition argument_limit :: "env \<Rightarrow> nat" where
  "argument_limit e = 65536 + argument_headroom e"

record theme =
  background :: jsstring
  surface :: jsstring
  textc :: jsstring
  muted :: jsstring
  accent :: jsstring
  recess :: jsstring

definition BRAND_notBlack :: jsstring where "BRAND_notBlack = js ''#0f1117''"
definition BRAND_notWhite :: jsstring where "BRAND_notWhite = js ''#e8eaf0''"
definition BRAND_muted :: jsstring where "BRAND_muted = js ''#9aa4b2''"
definition BRAND_accent :: jsstring where "BRAND_accent = js ''#7aa2f7''"

definition readCssVar :: "env \<Rightarrow> eid \<Rightarrow> jsstring \<Rightarrow> jsstring option" where
  "readCssVar e el name =
     (let v = trim (computed e el name) in if v = [] then None else Some v)"

definition format :: "jsstring option \<Rightarrow> jsstring \<Rightarrow> jsstring" where
  "format v fallback =
     (case v of
        None \<Rightarrow> fallback
      | Some s \<Rightarrow> if s = [] then fallback else js ''hsl('' @ s @ js '')'')"

definition resolveTheme :: "env \<Rightarrow> eid option \<Rightarrow> theme" where
  "resolveTheme e rt =
     (let scope = (case rt of None \<Rightarrow> documentElement e | Some r \<Rightarrow> r);
          v_background = readCssVar e scope (js ''--background'');
          v_surface = readCssVar e scope (js ''--card'');
          v_text = readCssVar e scope (js ''--foreground'');
          v_muted = readCssVar e scope (js ''--muted-foreground'');
          v_accent = readCssVar e scope (js ''--primary'');
          v_recess = readCssVar e scope (js ''--recess'')
      in \<lparr> background = format v_background BRAND_notBlack,
           surface = format v_surface (js ''#111827''),
           textc = format v_text BRAND_notWhite,
           muted = format v_muted BRAND_muted,
           accent = format v_accent BRAND_accent,
           recess = format v_recess (js ''#0b1220'') \<rparr>)"

text \<open>
  The scope theme resolution reads, and what a slot holds according to the token read for
  it: \<open>hsl(v)\<close> for a non-empty trimmed token \<open>v\<close>, the slot's default otherwise.
\<close>

definition scope_of :: "env \<Rightarrow> eid option \<Rightarrow> eid" where
  "scope_of e rt = (case rt of None \<Rightarrow> documentElement e | Some r \<Rightarrow> r)"

definition slot_value :: "env \<Rightarrow> eid \<Rightarrow> jsstring \<Rightarrow> jsstring \<Rightarrow> jsstring" where
  "slot_value e scope name dflt =
     (if trim (computed e scope name) = [] then dflt
      else js ''hsl('' @ trim (computed e scope name) @ js '')'')"

section \<open>Numbers\<close>

text \<open>
  A number of the program is a double. Finite doubles are idealised as the reals they
  denote: arithmetic on finite numbers is exact, and a literal inside the double range is
  not rounded to the nearest double. The three special values are kept, since the program
  can meet them, and so is what the program can tell apart when it reads a literal: one
  beyond the double range reads as an infinity, one too small to be a double reads as 0
  (which is falsy), and \<open>Infinity / Infinity\<close> is \<open>NaN\<close>. The sign of zero is not kept.
\<close>

datatype jsnum = Fin real | PInf | NInf | NaN

text \<open>
  The midpoint between the largest double and \<open>2^1024\<close>: a literal from here on rounds to
  an infinity.
\<close>

definition DOUBLE_LIMIT :: real where
  "DOUBLE_LIMIT = 2 ^ 1024 - 2 ^ 970"

text \<open>
  The smallest positive double is \<open>2^-1074\<close>; a literal of at most half of it rounds to
  zero.
\<close>

definition DOUBLE_TINY :: real where
  "DOUBLE_TINY = 1 / 2 ^ 1075"

definition to_double :: "real \<Rightarrow> jsnum" where
  "to_double r =
     (if DOUBLE_LIMIT \<le> r then PInf
      else if r \<le> - DOUBLE_LIMIT then NInf
      else if \<bar>r\<bar> \<le> DOUBLE_TINY then Fin 0
      else Fin r)"

fun num_truthy :: "jsnum \<Rightarrow> bool" where
  "num_truthy (Fin r) = (r \<noteq> 0)"
| "num_truthy NaN = False"
| "num_truthy _ = True"

fun is_finite :: "jsnum \<Rightarrow> bool" where
  "is_finite (Fin r) = True"
| "is_finite _ = False"

text \<open>The operator \<open>/\<close>.\<close>

fun num_div :: "jsnum \<Rightarrow> jsnum \<Rightarrow> jsnum" where
  "num_div NaN _ = NaN"
| "num_div _ NaN = NaN"
| "num_div (Fin x) (Fin y) =
     (if y \<noteq> 0 then Fin (x / y) else if x = 0 then NaN else if 0 < x then PInf else NInf)"
| "num_div (Fin x) _ = Fin 0"
| "num_div PInf (Fin y) = (if 0 \<le> y then PInf else NInf)"
| "num_div NInf (Fin y) = (if 0 \<le> y then NInf else PInf)"
| "num_div _ _ = NaN"

text \<open>The operator \<open>*\<close>.\<close>

fun num_mul :: "jsnum \<Rightarrow> jsnum \<Rightarrow> jsnum" where
  "num_mul NaN _ = NaN"
| "num_mul _ NaN = NaN"
| "num_mul (Fin x) (Fin y) = Fin (x * y)"
| "num_mul (Fin x) PInf = (if x = 0 then NaN else if 0 < x then PInf else NInf)"
| "num_mul (Fin x) NInf = (if x = 0 then NaN else if 0 < x then NInf else PInf)"
| "num_mul PInf (Fin y) = (if y = 0 then NaN else if 0 < y then PInf else NInf)"
| "num_mul NInf (Fin y) = (if y = 0 then NaN else if 0 < y then NInf else PInf)"
| "num_mul PInf PInf = PInf"
| "num_mul NInf NInf = PInf"
| "num_mul _ _ = NInf"

text \<open>The operator \<open>+\<close> on numbers.\<close>

fun num_add :: "jsnum \<Rightarrow> jsnum \<Rightarrow> jsnum" where
  "num_add NaN _ = NaN"
| "num_add _ NaN = NaN"
| "num_add (Fin x) (Fin y) = Fin (x + y)"
| "num_add PInf NInf = NaN"
| "num_add NInf PInf = NaN"
| "num_add PInf _ = PInf"
| "num_add _ PInf = PInf"
| "num_add _ _ = NInf"

text \<open>\<open>Math.max\<close> and \<open>Math.min\<close> of two numbers, and of an argument list.\<close>

fun max2 :: "jsnum \<Rightarrow> jsnum \<Rightarrow> jsnum" where
  "max2 NaN _ = NaN"
| "max2 _ NaN = NaN"
| "max2 PInf _ = PInf"
| "max2 _ PInf = PInf"
| "max2 NInf b = b"
| "max2 a NInf = a"
| "max2 (Fin x) (Fin y) = Fin (max x y)"

fun min2 :: "jsnum \<Rightarrow> jsnum \<Rightarrow> jsnum" where
  "min2 NaN _ = NaN"
| "min2 _ NaN = NaN"
| "min2 NInf _ = NInf"
| "min2 _ NInf = NInf"
| "min2 PInf b = b"
| "min2 a PInf = a"
| "min2 (Fin x) (Fin y) = Fin (min x y)"

definition Math_max :: "jsnum list \<Rightarrow> jsnum" where
  "Math_max xs = foldl max2 NInf xs"

definition Math_min :: "jsnum list \<Rightarrow> jsnum" where
  "Math_min xs = foldl min2 PInf xs"

fun Math_sin :: "jsnum \<Rightarrow> jsnum" where
  "Math_sin (Fin x) = Fin (sin x)"
| "Math_sin _ = NaN"

section \<open>Values\<close>

text \<open>
  The values a decoded property bag is made of. An object is the list of its own
  properties in insertion order, each key once. \<open>NativeFn\<close> is a built-in function met
  on a prototype (a decoded array answers \<open>values\<close> with \<open>Array.prototype.values\<close>).
\<close>

datatype jsval =
    Undefined
  | Null
  | Bool bool
  | Num jsnum
  | Str jsstring
  | Arr "jsval list"
  | Obj "(jsstring \<times> jsval) list"
  | NativeFn jsstring

datatype jserror = TypeError | RangeError | SyntaxError | NotSupportedError

fun obj_put :: "('k \<times> 'v) list \<Rightarrow> 'k \<Rightarrow> 'v \<Rightarrow> ('k \<times> 'v) list" where
  "obj_put [] k v = [(k, v)]"
| "obj_put ((k', v') # kvs) k v =
     (if k' = k then (k, v) # kvs else (k', v') # obj_put kvs k v)"

fun nullish :: "jsval \<Rightarrow> bool" where
  "nullish Undefined = True"
| "nullish Null = True"
| "nullish _ = False"

text \<open>Truthiness, as \<open>if (v)\<close>, \<open>v || w\<close> and \<open>!v\<close> read it.\<close>

fun truthy :: "jsval \<Rightarrow> bool" where
  "truthy Undefined = False"
| "truthy Null = False"
| "truthy (Bool b) = b"
| "truthy (Num n) = num_truthy n"
| "truthy (Str s) = (s \<noteq> [])"
| "truthy _ = True"

text \<open>\<open>a ?? b\<close>.\<close>

definition coalesce :: "jsval \<Rightarrow> jsval \<Rightarrow> jsval" where
  "coalesce a b = (if nullish a then b else a)"

text \<open>
  \<open>v.k\<close> for the property names the program reads: \<open>color\<close>, \<open>title\<close>, \<open>items\<close> and the
  like. None of them is a property of \<open>Object.prototype\<close>, \<open>String.prototype\<close>,
  \<open>Number.prototype\<close> or \<open>Boolean.prototype\<close>; \<open>Array.prototype\<close> has \<open>values\<close>.
  Reading a property of \<open>null\<close> or \<open>undefined\<close> throws.
\<close>

fun getp :: "jsval \<Rightarrow> jsstring \<Rightarrow> jserror + jsval" where
  "getp Undefined k = Inl TypeError"
| "getp Null k = Inl TypeError"
| "getp (Obj kvs) k = Inr (case map_of kvs k of None \<Rightarrow> Undefined | Some v \<Rightarrow> v)"
| "getp (Arr xs) k = Inr (if k = js ''values'' then NativeFn (js ''values'') else Undefined)"
| "getp (NativeFn n) k = Inr (if k = js ''name'' then Str n else Undefined)"
| "getp _ k = Inr Undefined"

text \<open>\<open>v?.k\<close>: \<open>undefined\<close> where \<open>v\<close> is \<open>null\<close> or \<open>undefined\<close>.\<close>

definition getq :: "jsval \<Rightarrow> jsstring \<Rightarrow> jsval" where
  "getq v k = (case getp v k of Inl _ \<Rightarrow> Undefined | Inr w \<Rightarrow> w)"

text \<open>\<open>xs[i]\<close> on an array.\<close>

definition index :: "jsval list \<Rightarrow> nat \<Rightarrow> jsval" where
  "index xs i = (if i < length xs then xs ! i else Undefined)"

section \<open>Conversions\<close>

text \<open>
  Text that reaches the document (text content, style values) is kept as a list of
  fragments: literal code units, and numbers whose decimal rendering
  (\<open>Number.prototype.toString\<close>) is left to the host. The text of a number is never
  empty.
\<close>

datatype frag = Lit jsstring | NumStr jsnum

type_synonym domstring = "frag list"

fun frag_empty :: "frag \<Rightarrow> bool" where
  "frag_empty (Lit s) = (s = [])"
| "frag_empty (NumStr n) = False"

definition text_empty :: "domstring \<Rightarrow> bool" where
  "text_empty t = list_all frag_empty t"

definition bnd :: "jserror + 'a \<Rightarrow> ('a \<Rightarrow> jserror + 'b) \<Rightarrow> jserror + 'b" where
  "bnd m f = (case m of Inl e \<Rightarrow> Inl e | Inr x \<Rightarrow> f x)"

text \<open>
  \<open>String(v)\<close>, a template literal's \<open>${v}\<close> and the conversion of a value assigned to a
  string attribute of the document. A decoded object has no callable property of its
  own, so it converts through \<open>Object.prototype.toString\<close> unless an own property
  \<open>toString\<close> hides that method, and then the conversion throws. An array converts through
  \<open>join\<close>, where \<open>null\<close> and \<open>undefined\<close> elements give the empty string.
\<close>

fun ToString :: "jsval \<Rightarrow> jserror + domstring"
  and join :: "jsval list \<Rightarrow> jserror + domstring" where
  "ToString Undefined = Inr [Lit (js ''undefined'')]"
| "ToString Null = Inr [Lit (js ''null'')]"
| "ToString (Bool b) = Inr [Lit (if b then js ''true'' else js ''false'')]"
| "ToString (Num n) = Inr [NumStr n]"
| "ToString (Str s) = Inr [Lit s]"
| "ToString (Arr xs) = join xs"
| "ToString (Obj kvs) =
     (if js ''toString'' \<in> fst ` set kvs then Inl TypeError
      else Inr [Lit (js ''[object Object]'')])"
| "ToString (NativeFn n) =
     Inr [Lit (js ''function '' @ n @ js ''() { [native code] }'')]"
| "join [] = Inr []"
| "join (x # xs) =
     (case (if nullish x then Inr [] else ToString x) of
        Inl e \<Rightarrow> Inl e
      | Inr t \<Rightarrow>
          (if xs = [] then Inr t
           else case join xs of Inl e \<Rightarrow> Inl e | Inr u \<Rightarrow> Inr (t @ Lit (js '','') # u)))"

text \<open>Decimal digits and their values.\<close>

definition is_digit :: "16 word \<Rightarrow> bool" where
  "is_digit c \<longleftrightarrow> 0x30 \<le> c \<and> c \<le> 0x39"

definition digits_val :: "jsstring \<Rightarrow> nat" where
  "digits_val ds = foldl (\<lambda>acc c. 10 * acc + (unat c - 48)) 0 ds"

definition hex_val :: "16 word \<Rightarrow> nat option" where
  "hex_val c =
     (if 0x30 \<le> c \<and> c \<le> 0x39 then Some (unat c - 48)
      else if 0x41 \<le> c \<and> c \<le> 0x46 then Some (unat c - 55)
      else if 0x61 \<le> c \<and> c \<le> 0x66 then Some (unat c - 87)
      else None)"

text \<open>
  A decimal literal \<open>digits [. digits] [e [sign] digits]\<close> read from the front of a
  string: its value and what follows it. \<open>need_int\<close> asks for at least one digit before
  the point (JSON); otherwise digits on either side of the point are enough.
\<close>

definition scale10 :: "real \<Rightarrow> bool \<Rightarrow> nat \<Rightarrow> real" where
  "scale10 m neg n = (if neg then m / 10 ^ n else m * 10 ^ n)"

definition read_exponent :: "jsstring \<Rightarrow> ((bool \<times> nat) \<times> jsstring) option" where
  "read_exponent s =
     (case s of
        [] \<Rightarrow> Some ((False, 0), [])
      | c # cs \<Rightarrow>
          if c = 0x65 \<or> c = 0x45 then
            (let neg = (case cs of [] \<Rightarrow> False | d # _ \<Rightarrow> d = 0x2D);
                 signed = (case cs of [] \<Rightarrow> False | d # _ \<Rightarrow> d = 0x2D \<or> d = 0x2B);
                 ds = (if signed then tl cs else cs);
                 es = takeWhile is_digit ds
             in if es = [] then None
                else Some ((neg, digits_val es), dropWhile is_digit ds))
          else Some ((False, 0), s))"

definition read_decimal :: "bool \<Rightarrow> jsstring \<Rightarrow> (real \<times> jsstring) option" where
  "read_decimal need_int s =
     (let ip = takeWhile is_digit s;
          r1 = dropWhile is_digit s;
          dotted = (case r1 of [] \<Rightarrow> False | c # _ \<Rightarrow> c = 0x2E);
          fp = (if dotted then takeWhile is_digit (tl r1) else []);
          r2 = (if dotted then dropWhile is_digit (tl r1) else r1)
      in if ip = [] \<and> (need_int \<or> fp = []) then None
         else if need_int \<and> dotted \<and> fp = [] then None
         else case read_exponent r2 of
                None \<Rightarrow> None
              | Some ((neg, n), r3) \<Rightarrow>
                  Some (scale10 (real (digits_val ip) + real (digits_val fp) / 10 ^ length fp)
                          neg n, r3))"

text \<open>
  The number a string denotes (\<open>Number(s)\<close>): white space around it is dropped, the
  empty string is 0, then an optionally signed \<open>Infinity\<close> or decimal literal, or an
  unsigned hexadecimal, octal or binary integer; anything else is \<open>NaN\<close>.
\<close>

fun radix_val :: "nat \<Rightarrow> jsstring \<Rightarrow> nat \<Rightarrow> nat option" where
  "radix_val b [] acc = Some acc"
| "radix_val b (c # cs) acc =
     (case hex_val c of
        None \<Rightarrow> None
      | Some d \<Rightarrow> if d < b then radix_val b cs (b * acc + d) else None)"

definition unsigned_literal :: "jsstring \<Rightarrow> jsnum" where
  "unsigned_literal t =
     (if t = js ''Infinity'' then PInf
      else case read_decimal False t of
             Some (r, rest) \<Rightarrow> if rest = [] then to_double r else NaN
           | None \<Rightarrow> NaN)"

definition radix_literal :: "jsstring \<Rightarrow> jsnum option" where
  "radix_literal t =
     (case t of
        z # x # d # ds \<Rightarrow>
          if z \<noteq> 0x30 then None
          else
            (let b = (if x = 0x78 \<or> x = 0x58 then Some 16
                      else if x = 0x6F \<or> x = 0x4F then Some 8
                      else if x = 0x62 \<or> x = 0x42 then Some (2::nat)
                      else None)
             in case b of
                  None \<Rightarrow> None
                | Some b \<Rightarrow>
                    Some (case radix_val b (d # ds) 0 of
                            None \<Rightarrow> NaN
                          | Some n \<Rightarrow> to_double (real n)))
      | _ \<Rightarrow> None)"

definition neg_num :: "jsnum \<Rightarrow> jsnum" where
  "neg_num n = (case n of Fin r \<Rightarrow> Fin (- r) | PInf \<Rightarrow> NInf | NInf \<Rightarrow> PInf | NaN \<Rightarrow> NaN)"

definition StringToNumber :: "jsstring \<Rightarrow> jsnum" where
  "StringToNumber s =
     (let t = trim s in
      case t of
        [] \<Rightarrow> Fin 0
      | c # cs \<Rightarrow>
          (case radix_literal t of
             Some n \<Rightarrow> n
           | None \<Rightarrow>
               if c = 0x2D then neg_num (unsigned_literal cs)
               else if c = 0x2B then unsigned_literal cs
               else unsigned_literal t))"

text \<open>
  \<open>Number(v)\<close>. An object or array is first made primitive; for an array that is its
  \<open>join\<close>, which holds a comma (and so reads as \<open>NaN\<close>) as soon as the array has two
  elements, and which for a single element is that element's own text.
\<close>

fun ToNumber :: "jsval \<Rightarrow> jserror + jsnum" where
  "ToNumber Undefined = Inr NaN"
| "ToNumber Null = Inr (Fin 0)"
| "ToNumber (Bool b) = Inr (Fin (if b then 1 else 0))"
| "ToNumber (Num n) = Inr n"
| "ToNumber (Str s) = Inr (StringToNumber s)"
| "ToNumber (Obj kvs) = (if js ''toString'' \<in> fst ` set kvs then Inl TypeError else Inr NaN)"
| "ToNumber (NativeFn n) = Inr NaN"
| "ToNumber (Arr []) = Inr (Fin 0)"
| "ToNumber (Arr [x]) =
     (case x of
        Undefined \<Rightarrow> Inr (Fin 0)
      | Null \<Rightarrow> Inr (Fin 0)
      | Bool b \<Rightarrow> Inr NaN
      | Num n \<Rightarrow> Inr n
      | Str s \<Rightarrow> Inr (StringToNumber s)
      | Arr ys \<Rightarrow> ToNumber (Arr ys)
      | Obj kvs \<Rightarrow> ToNumber (Obj kvs)
      | NativeFn n \<Rightarrow> Inr NaN)"
| "ToNumber (Arr (x # y # zs)) =
     (case join (x # y # zs) of Inl e \<Rightarrow> Inl e | Inr t \<Rightarrow> Inr NaN)"

text \<open>
  The items of \<open>for (const item of v)\<close>: the elements of an array, the code points of a
  string (a surrogate pair is one item); a number, boolean or object is not iterable.
\<close>

definition is_high :: "16 word \<Rightarrow> bool" where
  "is_high c \<longleftrightarrow> 0xD800 \<le> c \<and> c \<le> 0xDBFF"

definition is_low :: "16 word \<Rightarrow> bool" where
  "is_low c \<longleftrightarrow> 0xDC00 \<le> c \<and> c \<le> 0xDFFF"

fun code_points :: "jsstring \<Rightarrow> jsval list" where
  "code_points [] = []"
| "code_points [c] = [Str [c]]"
| "code_points (c # d # cs) =
     (if is_high c \<and> is_low d then Str [c, d] # code_points cs
      else Str [c] # code_points (d # cs))"

fun iterate :: "jsval \<Rightarrow> jserror + jsval list" where
  "iterate (Arr xs) = Inr xs"
| "iterate (Str s) = Inr (code_points s)"
| "iterate _ = Inl TypeError"

section \<open>Decoding the property attribute\<close>

text \<open>
  \<open>JSON.parse\<close> of the host, after the JSON grammar: a lexer, then a parser that keeps
  the open arrays and objects on a stack. \<open>None\<close> is the \<open>SyntaxError\<close> it throws.
\<close>

datatype token =
  TLBrace | TRBrace | TLBrack | TRBrack | TColon | TComma | TStr jsstring | TScalar jsval

definition unescape :: "16 word \<Rightarrow> 16 word option" where
  "unescape e =
     (if e = 0x22 \<or> e = 0x5C \<or> e = 0x2F then Some e
      else if e = 0x62 then Some 0x08
      else if e = 0x66 then Some 0x0C
      else if e = 0x6E then Some 0x0A
      else if e = 0x72 then Some 0x0D
      else if e = 0x74 then Some 0x09
      else None)"

definition hex4 :: "16 word \<Rightarrow> 16 word \<Rightarrow> 16 word \<Rightarrow> 16 word \<Rightarrow> 16 word option" where
  "hex4 a b c d =
     (case (hex_val a, hex_val b, hex_val c, hex_val d) of
        (Some x, Some y, Some z, Some w) \<Rightarrow> Some (of_nat (((x * 16 + y) * 16 + z) * 16 + w))
      | _ \<Rightarrow> None)"

text \<open>The rest of a string literal after its opening quote: its content and what follows.\<close>

fun lex_string :: "jsstring \<Rightarrow> (jsstring \<times> jsstring) option" where
  "lex_string [] = None"
| "lex_string (c # cs) =
     (if c = 0x22 then Some ([], cs)
      else if c = 0x5C then
        (case cs of
           [] \<Rightarrow> None
         | e # r \<Rightarrow>
             if e = 0x75 then
               (case r of
                  h1 # h2 # h3 # h4 # r' \<Rightarrow>
                    (case hex4 h1 h2 h3 h4 of
                       None \<Rightarrow> None
                     | Some u \<Rightarrow>
                         (case lex_string r' of
                            None \<Rightarrow> None
                          | Some (t, rest) \<Rightarrow> Some (u # t, rest)))
                | _ \<Rightarrow> None)
             else
               (case unescape e of
                  None \<Rightarrow> None
                | Some u \<Rightarrow>
                    (case lex_string r of
                       None \<Rightarrow> None
                     | Some (t, rest) \<Rightarrow> Some (u # t, rest))))
      else if c < 0x20 then None
      else (case lex_string cs of
              None \<Rightarrow> None
            | Some (t, rest) \<Rightarrow> Some (c # t, rest)))"

text \<open>
  A number literal at the front of the input: an optional minus, an integer part without
  a superfluous leading zero, then fraction and exponent.
\<close>

definition lex_number :: "jsstring \<Rightarrow> (jsnum \<times> jsstring) option" where
  "lex_number s =
     (let neg = (case s of [] \<Rightarrow> False | c # _ \<Rightarrow> c = 0x2D);
          body = (if neg then tl s else s);
          padded = (case body of z # d # _ \<Rightarrow> z = 0x30 \<and> is_digit d | _ \<Rightarrow> False)
      in if padded then None
         else case read_decimal True body of
                None \<Rightarrow> None
              | Some (r, rest) \<Rightarrow> Some (to_double (if neg then - r else r), rest))"

definition is_json_space :: "16 word \<Rightarrow> bool" where
  "is_json_space c \<longleftrightarrow> c = 0x20 \<or> c = 0x09 \<or> c = 0x0A \<or> c = 0x0D"

lemma lex_string_shorter: "lex_string s = Some (t, rest) \<Longrightarrow> length rest < length s"
proof (induction s arbitrary: t rest rule: lex_string.induct)
  case 1
  then show ?case by simp
next
  case (2 c cs)
  show ?case
  proof (cases "c = 0x22")
    case True
    with "2.prems" show ?thesis by simp
  next
    case nq: False
    show ?thesis
    proof (cases "c = 0x5C")
      case False
      with nq "2.prems" "2.IH"(3) show ?thesis
        by (fastforce split: if_splits option.splits)
    next
      case bs: True
      then obtain e r where cs: "cs = e # r"
        using "2.prems" nq by (cases cs) auto
      show ?thesis
      proof (cases "e = 0x75")
        case False
        with nq bs cs "2.prems" "2.IH"(2) show ?thesis
          by (fastforce split: if_splits option.splits)
      next
        case True
        with nq bs cs "2.prems" "2.IH"(1) show ?thesis
          by (fastforce split: if_splits option.splits list.splits)
      qed
    qed
  qed
qed

lemma read_exponent_shorter: "read_exponent s = Some (x, rest) \<Longrightarrow> length rest \<le> length s"
proof -
  have d: "length (dropWhile is_digit u) \<le> length u" for u
    by (rule length_dropWhile_le)
  assume a: "read_exponent s = Some (x, rest)"
  show ?thesis
  proof (cases s)
    case Nil
    with a show ?thesis by (simp add: read_exponent_def)
  next
    case (Cons c cs)
    with a d [of cs] d [of "tl cs"] show ?thesis
      by (cases cs) (auto simp: read_exponent_def Let_def split: if_splits)
  qed
qed

lemma read_decimal_shorter:
  assumes "read_decimal True s = Some (r, rest)"
  shows "length rest < length s"
proof -
  let ?ip = "takeWhile is_digit s"
  let ?r1 = "dropWhile is_digit s"
  from assms have ip: "?ip \<noteq> []"
    by (auto simp: read_decimal_def Let_def split: if_splits)
  have "length ?ip + length ?r1 = length s"
    by (metis length_append takeWhile_dropWhile_id)
  with ip have r1: "length ?r1 < length s"
    by (cases ?ip) auto
  define r2 where "r2 = (if (case ?r1 of [] \<Rightarrow> False | c # _ \<Rightarrow> c = 0x2E)
       then dropWhile is_digit (tl ?r1) else ?r1)"
  have "length (dropWhile is_digit (tl ?r1)) \<le> length (tl ?r1)"
    by (rule length_dropWhile_le)
  then have r2: "length r2 \<le> length ?r1"
    by (auto simp: r2_def)
  from assms obtain x where "read_exponent r2 = Some (x, rest)"
    by (auto simp: read_decimal_def Let_def r2_def split: if_splits option.splits)
  then have "length rest \<le> length r2"
    by (rule read_exponent_shorter)
  with r1 r2 show ?thesis by simp
qed

lemma lex_number_shorter: "lex_number s = Some (n, rest) \<Longrightarrow> length rest < length s"
proof -
  assume a: "lex_number s = Some (n, rest)"
  then obtain r where r: "read_decimal True (if (case s of [] \<Rightarrow> False | c # _ \<Rightarrow> c = 0x2D)
       then tl s else s) = Some (r, rest)"
    by (auto simp: lex_number_def Let_def split: if_splits option.splits)
  have "length (tl s) \<le> length s" by simp
  with read_decimal_shorter [OF r] show ?thesis
    by (auto split: if_splits)
qed

function tokens :: "jsstring \<Rightarrow> token list option" where
  "tokens [] = Some []"
| "tokens (c # cs) =
     (if is_json_space c then tokens cs
      else if c = 0x7B then map_option (Cons TLBrace) (tokens cs)
      else if c = 0x7D then map_option (Cons TRBrace) (tokens cs)
      else if c = 0x5B then map_option (Cons TLBrack) (tokens cs)
      else if c = 0x5D then map_option (Cons TRBrack) (tokens cs)
      else if c = 0x3A then map_option (Cons TColon) (tokens cs)
      else if c = 0x2C then map_option (Cons TComma) (tokens cs)
      else if c = 0x22 then
        (case lex_string cs of
           None \<Rightarrow> None
         | Some (t, rest) \<Rightarrow> map_option (Cons (TStr t)) (tokens rest))
      else if take 4 (c # cs) = js ''true'' then
        map_option (Cons (TScalar (Bool True))) (tokens (drop 3 cs))
      else if take 5 (c # cs) = js ''false'' then
        map_option (Cons (TScalar (Bool False))) (tokens (drop 4 cs))
      else if take 4 (c # cs) = js ''null'' then
        map_option (Cons (TScalar Null)) (tokens (drop 3 cs))
      else
        (case lex_number (c # cs) of
           None \<Rightarrow> None
         | Some (n, rest) \<Rightarrow> map_option (Cons (TScalar (Num n))) (tokens rest)))"
  by pat_completeness auto
termination
proof (relation "measure length")
  show "wf (measure length)" by simp
next
  fix c cs x2 x y
  assume "lex_string cs = Some x2" "(x, y) = x2"
  then have "lex_string cs = Some (x, y)" by simp
  from lex_string_shorter [OF this] show "(y, c # cs) \<in> measure length" by simp
next
  fix c cs x2 x y
  assume "lex_number (c # cs) = Some x2" "(x, y) = x2"
  then have "lex_number (c # cs) = Some (x, y)" by simp
  from lex_number_shorter [OF this] show "(y, c # cs) \<in> measure length" by simp
qed auto

text \<open>
  The parser's state: the open containers, innermost first, and what may come next.
\<close>

datatype frame =
    InArr "jsval list"
  | InObj "(jsstring \<times> jsval) list"
  | InMember "(jsstring \<times> jsval) list" jsstring

datatype pstate =
    WantValue "frame list"
  | WantValueOrClose "frame list"
  | WantKeyOrClose "frame list"
  | WantKey "frame list"
  | WantColon "frame list"
  | AfterValue "frame list"
  | Done jsval

fun deliver :: "jsval \<Rightarrow> frame list \<Rightarrow> pstate option" where
  "deliver v [] = Some (Done v)"
| "deliver v (InArr xs # st) = Some (AfterValue (InArr (xs @ [v]) # st))"
| "deliver v (InMember kvs k # st) = Some (AfterValue (InObj (obj_put kvs k v) # st))"
| "deliver v (InObj kvs # st) = None"

fun open_value :: "frame list \<Rightarrow> token \<Rightarrow> pstate option" where
  "open_value st (TScalar v) = deliver v st"
| "open_value st (TStr s) = deliver (Str s) st"
| "open_value st TLBrack = Some (WantValueOrClose (InArr [] # st))"
| "open_value st TLBrace = Some (WantKeyOrClose (InObj [] # st))"
| "open_value st _ = None"

fun pstep :: "pstate \<Rightarrow> token \<Rightarrow> pstate option" where
  "pstep (WantValue st) t = open_value st t"
| "pstep (WantValueOrClose (InArr xs # st)) TRBrack = deliver (Arr xs) st"
| "pstep (WantValueOrClose st) t = open_value st t"
| "pstep (WantKeyOrClose (InObj kvs # st)) TRBrace = deliver (Obj kvs) st"
| "pstep (WantKeyOrClose (InObj kvs # st)) (TStr k) = Some (WantColon (InMember kvs k # st))"
| "pstep (WantKey (InObj kvs # st)) (TStr k) = Some (WantColon (InMember kvs k # st))"
| "pstep (WantColon st) TColon = Some (WantValue st)"
| "pstep (AfterValue (InArr xs # st)) TComma = Some (WantValue (InArr xs # st))"
| "pstep (AfterValue (InArr xs # st)) TRBrack = deliver (Arr xs) st"
| "pstep (AfterValue (InObj kvs # st)) TComma = Some (WantKey (InObj kvs # st))"
| "pstep (AfterValue (InObj kvs # st)) TRBrace = deliver (Obj kvs) st"
| "pstep _ _ = None"

fun prun :: "pstate \<Rightarrow> token list \<Rightarrow> pstate option" where
  "prun p [] = Some p"
| "prun p (t # ts) = (case pstep p t of None \<Rightarrow> None | Some q \<Rightarrow> prun q ts)"

definition JSON_parse :: "jsstring \<Rightarrow> jsval option" where
  "JSON_parse s =
     (case tokens s of
        None \<Rightarrow> None
      | Some ts \<Rightarrow>
          (case prun (WantValue []) ts of
             Some (Done v) \<Rightarrow> Some v
           | _ \<Rightarrow> None))"

text \<open>
  \<open>parseProps\<close>: an absent or empty attribute gives the empty bag; otherwise whatever
  \<open>JSON.parse\<close> returns, and the empty bag where it throws.
\<close>

definition parseProps :: "jsstring option \<Rightarrow> jsval" where
  "parseProps v =
     (case v of
        None \<Rightarrow> Obj []
      | Some s \<Rightarrow>
          if s = [] then Obj []
          else (case JSON_parse s of None \<Rightarrow> Obj [] | Some p \<Rightarrow> p))"

section \<open>The document\<close>

text \<open>
  A subtree of the document. An element has its tag, the style values assigned to it (the
  text last assigned to each property, in order of first assignment), the text set through
  \<open>textContent\<close> and its child elements; \<open>TextNode\<close> is text met among the children
  an author gave a component. The bars of the bar chart are mutated after rendering, so
  they are held once, in the component's \<open>barNodes\<close>; \<open>BarSlot i\<close> is the place of the
  bar \<open>barNodes[i]\<close> in the tree.
\<close>

type_synonym style = "(jsstring \<times> domstring) list"

datatype node =
    Element (tag: jsstring) (style: style) (textContent: domstring) (kids: "node list")
  | TextNode domstring
  | BarSlot nat

record bar =
  base :: jsnum
  bstyle :: style

text \<open>
  A component instance: its lower-case tag name and identity, the value of its \<open>props\<close>
  attribute, its ancestors from the parent upwards (tag name and identity; empty when the
  element has no parent), and its child nodes. \<open>barNodes\<close> and \<open>tickHandler\<close> are the
  fields of \<open>MotionBarsElement\<close>; a tick handler is known by the number of the closure.
\<close>

record element =
  tagName :: jsstring
  ident :: eid
  props :: "jsstring option"
  ancestors :: "(jsstring \<times> eid) list"
  childNodes :: "node list"
  barNodes :: "bar list"
  tickHandler :: "nat option"

definition is_root_tag :: "jsstring \<Rightarrow> bool" where
  "is_root_tag t \<longleftrightarrow> t = js ''vml'' \<or> t = js ''videoml'' \<or> t = js ''video-ml''"

text \<open>\<open>this.closest("vml, videoml, video-ml")\<close>: the element itself, then its ancestors.\<close>

definition closest :: "element \<Rightarrow> eid option" where
  "closest this =
     (if is_root_tag (tagName this) then Some (ident this)
      else map_option snd (find (\<lambda>(t, i). is_root_tag t) (ancestors this)))"

definition getRootTheme :: "env \<Rightarrow> element \<Rightarrow> theme" where
  "getRootTheme e el = resolveTheme e (closest el)"

definition clear :: "element \<Rightarrow> element" where
  "clear el = el\<lparr>childNodes := []\<rparr>"

definition appendChild :: "element \<Rightarrow> node \<Rightarrow> element" where
  "appendChild el n = el\<lparr>childNodes := childNodes el @ [n]\<rparr>"

text \<open>
  \<open>Object.assign(node.style, {...})\<close>: the values are assigned in order; a value that is
  not a string is converted on assignment, which can throw.
\<close>

fun Object_assign :: "style \<Rightarrow> (jsstring \<times> (jserror + domstring)) list \<Rightarrow> jserror + style" where
  "Object_assign st [] = Inr st"
| "Object_assign st ((k, v) # rest) =
     (case v of Inl e \<Rightarrow> Inl e | Inr t \<Rightarrow> Object_assign (obj_put st k t) rest)"

definition lit :: "string \<Rightarrow> jserror + domstring" where
  "lit s = Inr [Lit (js s)]"

definition str :: "jsstring \<Rightarrow> jserror + domstring" where
  "str s = Inr [Lit s]"

text \<open>The template literal \<open>`${v}px`\<close>.\<close>

definition px :: "jsval \<Rightarrow> jserror + domstring" where
  "px v = bnd (ToString v) (\<lambda>t. Inr (t @ [Lit (js ''px'')]))"

definition BASE_FONT :: "jserror + domstring" where
  "BASE_FONT = lit ''\"DM Sans\", \"Helvetica Neue\", Arial, sans-serif''"

definition HEADING_FONT :: "jserror + domstring" where
  "HEADING_FONT = lit ''\"Space Grotesk\", \"Helvetica Neue\", Arial, sans-serif''"

definition makeText :: "domstring \<Rightarrow> (jsstring \<times> (jserror + domstring)) list \<Rightarrow> jserror + node" where
  "makeText t sty = bnd (Object_assign [] sty) (\<lambda>st. Inr (Element (js ''div'') st t []))"

text \<open>
  \<open>makeCard\<close> resolves the theme from the card it has just created; that element has no
  parent, so \<open>closest\<close> finds nothing and the document's own theme is used.
\<close>

definition makeCard :: "env \<Rightarrow> jsnum \<Rightarrow> node" where
  "makeCard e padding =
     (let theme = resolveTheme e None in
      Element (js ''div'')
        [(js ''display'', [Lit (js ''flex'')]),
         (js ''flexDirection'', [Lit (js ''column'')]),
         (js ''gap'', [Lit (js ''12px'')]),
         (js ''padding'', [NumStr padding, Lit (js ''px'')]),
         (js ''borderRadius'', [Lit (js ''18px'')]),
         (js ''background'', [Lit (surface theme)]),
         (js ''color'', [Lit (textc theme)]),
         (js ''fontFamily'', [Lit (js ''\"DM Sans\", \"Helvetica Neue\", Arial, sans-serif'')]),
         (js ''boxSizing'', [Lit (js ''border-box'')]),
         (js ''width'', [Lit (js ''100%'')])]
        [] [])"

text \<open>\<open>node.style.k = v\<close> and \<open>node.appendChild(child)\<close> on a node under construction.\<close>

fun set_style :: "node \<Rightarrow> jsstring \<Rightarrow> domstring \<Rightarrow> node" where
  "set_style (Element t st tx ks) k v = Element t (obj_put st k v) tx ks"
| "set_style n k v = n"

fun assign_style :: "node \<Rightarrow> (jsstring \<times> (jserror + domstring)) list \<Rightarrow> jserror + node" where
  "assign_style (Element t st tx ks) sty =
     bnd (Object_assign st sty) (\<lambda>st'. Inr (Element t st' tx ks))"
| "assign_style n sty = Inr n"

fun append_kids :: "node \<Rightarrow> node list \<Rightarrow> node" where
  "append_kids (Element t st tx ks) ns = Element t st tx (ks @ ns)"
| "append_kids n ns = n"

text \<open>
  The statement \<open>if (v) parent.appendChild(makeText(String(v), style))\<close>, as the nodes it
  appends.
\<close>

definition text_if :: "jsval \<Rightarrow> (jsstring \<times> (jserror + domstring)) list \<Rightarrow> jserror + node list" where
  "text_if v sty =
     (if truthy v then bnd (ToString v) (\<lambda>t. bnd (makeText t sty) (\<lambda>n. Inr [n])) else Inr [])"

section \<open>The components\<close>

text \<open>
  Each \<open>render\<close> decodes the attribute, removes all children, resolves the theme, builds
  a subtree and appends it. It returns the element as it leaves it, with the exception
  that escaped, if one did: nothing in \<open>render\<close> catches, and whatever was done before the
  throw stays done.
\<close>

subsection \<open>TitleSlideElement\<close>

definition TitleSlide_wrap :: "theme \<Rightarrow> jsval \<Rightarrow> jserror + node" where
  "TitleSlide_wrap theme p =
     bnd (getp p (js ''color'')) (\<lambda>color.
     bnd (Object_assign []
       [(js ''display'', lit ''flex''),
        (js ''flexDirection'', lit ''column''),
        (js ''justifyContent'', lit ''center''),
        (js ''alignItems'', lit ''center''),
        (js ''height'', lit ''100%''),
        (js ''width'', lit ''100%''),
        (js ''color'', ToString (coalesce color (Str (textc theme)))),
        (js ''fontFamily'', BASE_FONT),
        (js ''textAlign'', lit ''center''),
        (js ''padding'', lit ''72px''),
        (js ''boxSizing'', lit ''border-box'')]) (\<lambda>st.
     bnd (getp p (js ''eyebrow'')) (\<lambda>eyebrow.
     bnd (text_if eyebrow
       [(js ''fontSize'', lit ''18px''), (js ''letterSpacing'', lit ''0.24em''),
        (js ''textTransform'', lit ''uppercase''), (js ''opacity'', lit ''0.6''),
        (js ''marginBottom'', lit ''18px''), (js ''fontFamily'', BASE_FONT)]) (\<lambda>k1.
     bnd (getp p (js ''title'')) (\<lambda>title.
     bnd (text_if title
       [(js ''fontSize'', lit ''64px''), (js ''fontWeight'', lit ''600''),
        (js ''marginBottom'', lit ''18px''), (js ''fontFamily'', HEADING_FONT)]) (\<lambda>k2.
     bnd (getp p (js ''subtitle'')) (\<lambda>subtitle.
     bnd (text_if subtitle
       [(js ''fontSize'', lit ''28px''), (js ''opacity'', lit ''0.8''),
        (js ''fontFamily'', BASE_FONT)]) (\<lambda>k3.
     Inr (Element (js ''div'') st [] (k1 @ k2 @ k3))))))))))"

definition TitleSlide_render :: "env \<Rightarrow> element \<Rightarrow> element \<times> jserror option" where
  "TitleSlide_render e this =
     (let p = parseProps (props this);
          this1 = clear this;
          theme = getRootTheme e this1
      in case TitleSlide_wrap theme p of
           Inl err \<Rightarrow> (this1, Some err)
         | Inr wrap \<Rightarrow> (appendChild this1 wrap, None))"

subsection \<open>GridScreenElement\<close>

definition Grid_card :: "env \<Rightarrow> jsval \<Rightarrow> jserror + node" where
  "Grid_card e item =
     (let card = makeCard e (Fin 20) in
      bnd (ToString (coalesce (coalesce (getq item (js ''title'')) (getq item (js ''label'')))
             (Str (js ''Item'')))) (\<lambda>t.
      bnd (makeText t
        [(js ''fontSize'', lit ''20px''), (js ''fontWeight'', lit ''600''),
         (js ''fontFamily'', HEADING_FONT)]) (\<lambda>n1.
      bnd (text_if (getq item (js ''text''))
        [(js ''fontSize'', lit ''16px''), (js ''opacity'', lit ''0.8'')]) (\<lambda>k2.
      Inr (append_kids card (n1 # k2))))))"

text \<open>A \<open>for ... of\<close> loop that appends one node per item and stops at the first throw.\<close>

fun for_each :: "('a \<Rightarrow> jserror + 'b) \<Rightarrow> 'a list \<Rightarrow> jserror + 'b list" where
  "for_each f [] = Inr []"
| "for_each f (x # xs) =
     (case f x of
        Inl e \<Rightarrow> Inl e
      | Inr y \<Rightarrow> (case for_each f xs of Inl e \<Rightarrow> Inl e | Inr ys \<Rightarrow> Inr (y # ys)))"

definition Grid_wrap :: "env \<Rightarrow> theme \<Rightarrow> jsval \<Rightarrow> jserror + node" where
  "Grid_wrap e theme p =
     bnd (Object_assign []
       [(js ''display'', lit ''grid''),
        (js ''gridTemplateColumns'', lit ''repeat(3, minmax(0, 1fr))''),
        (js ''gap'', lit ''16px''),
        (js ''padding'', lit ''48px''),
        (js ''color'', str (textc theme)),
        (js ''fontFamily'', BASE_FONT)]) (\<lambda>st.
     bnd (getp p (js ''items'')) (\<lambda>items0.
     let items = coalesce items0 (Arr []) in
     bnd (getp p (js ''title'')) (\<lambda>title.
     bnd (if truthy title then
            bnd (ToString title) (\<lambda>t.
            bnd (makeText t
              [(js ''fontSize'', lit ''36px''), (js ''fontWeight'', lit ''600''),
               (js ''fontFamily'', HEADING_FONT)]) (\<lambda>n.
            Inr [Element (js ''div'') [(js ''gridColumn'', [Lit (js ''1 / -1'')])] [] [n]]))
          else Inr []) (\<lambda>header.
     bnd (iterate items) (\<lambda>its.
     bnd (for_each (Grid_card e) its) (\<lambda>cards.
     Inr (Element (js ''div'') st [] (header @ cards))))))))"

definition Grid_render :: "env \<Rightarrow> element \<Rightarrow> element \<times> jserror option" where
  "Grid_render e this =
     (let p = parseProps (props this);
          this1 = clear this;
          theme = getRootTheme e this1
      in case Grid_wrap e theme p of
           Inl err \<Rightarrow> (this1, Some err)
         | Inr wrap \<Rightarrow> (appendChild this1 wrap, None))"

subsection \<open>MotionBarsElement\<close>

text \<open>\<open>Number(v) || 0\<close>.\<close>

definition coerce :: "jsval \<Rightarrow> jserror + jsnum" where
  "coerce v = bnd (ToNumber v) (\<lambda>n. Inr (if num_truthy n then n else Fin 0))"

definition default_values :: "jsval list" where
  "default_values = map (\<lambda>r. Num (Fin r)) [38, 52, 24, 71, 43, 66]"

text \<open>
  \<open>Math.max(...values.map((v) => Number(v) || 0), 1)\<close>. The values are coerced first;
  the call then spreads them into arguments and throws \<open>RangeError\<close> where they, with the
  final 1, are more than the host takes.
\<close>

definition bars_max :: "env \<Rightarrow> jsval list \<Rightarrow> jserror + jsnum" where
  "bars_max e values =
     bnd (for_each coerce values) (\<lambda>ns.
     if argument_limit e < length ns + 1 then Inl RangeError
     else Inr (Math_max (ns @ [Fin 1])))"

text \<open>
  One turn of \<open>values.forEach\<close>: the column built for \<open>raw\<close> at \<open>idx\<close> and its bar.
  \<open>bar.dataset.base\<close> holds \<open>String(base)\<close>, which the tick handler reads back with
  \<open>parseFloat\<close>; the bar keeps the number itself.
\<close>

definition bar_column :: "jsval \<Rightarrow> jsval list \<Rightarrow> jsnum \<Rightarrow> jsval \<Rightarrow> nat \<Rightarrow> jserror + node \<times> bar" where
  "bar_column accentv labels mx raw idx =
     bnd (coerce raw) (\<lambda>n.
     let b = num_div n mx in
     bnd (Object_assign []
       [(js ''display'', lit ''flex''), (js ''flexDirection'', lit ''column''),
        (js ''gap'', lit ''8px''), (js ''alignItems'', lit ''center'')]) (\<lambda>colst.
     bnd (Object_assign []
       [(js ''width'', lit ''100%''),
        (js ''height'', Inr [NumStr (num_mul (Math_max [Fin 0.1, b]) (Fin 100)), Lit (js ''%'')]),
        (js ''background'', ToString accentv),
        (js ''borderRadius'', lit ''12px''),
        (js ''transformOrigin'', lit ''bottom''),
        (js ''transform'', Inr [Lit (js ''scaleY(''), NumStr (Math_max [Fin 0.1, b]), Lit (js '')'')]),
        (js ''transition'', lit ''none''),
        (js ''willChange'', lit ''transform'')]) (\<lambda>barst.
     bnd (ToString (coalesce (index labels idx) (Str []))) (\<lambda>lt.
     bnd (Object_assign []
       [(js ''fontSize'', lit ''14px''), (js ''opacity'', lit ''0.7''),
        (js ''textAlign'', lit ''center'')]) (\<lambda>labst.
     Inr (Element (js ''div'') colst []
            (BarSlot idx # (if text_empty lt then [] else [Element (js ''div'') labst lt []])),
          \<lparr> base = b, bstyle = barst \<rparr>))))))"

text \<open>
  \<open>values.forEach\<close> from \<open>idx\<close> on, with the columns appended to the chart and the bars
  pushed to \<open>barNodes\<close> so far. A throw leaves the bars already pushed.
\<close>

fun bars_forEach ::
  "jsval \<Rightarrow> jsval list \<Rightarrow> jsnum \<Rightarrow> jsval list \<Rightarrow> nat \<Rightarrow> node list \<Rightarrow> bar list
     \<Rightarrow> bar list \<times> (jserror + node list)" where
  "bars_forEach accentv labels mx [] idx cols bars = (bars, Inr cols)"
| "bars_forEach accentv labels mx (raw # rest) idx cols bars =
     (case bar_column accentv labels mx raw idx of
        Inl err \<Rightarrow> (bars, Inl err)
      | Inr (col, b) \<Rightarrow>
          bars_forEach accentv labels mx rest (Suc idx) (cols @ [col]) (bars @ [b]))"

text \<open>What \<open>render\<close> does between resolving the theme and \<open>this.barNodes = []\<close>.\<close>

record bars_setup =
  wrap_style :: style
  heading :: "node list"
  chart_style :: style
  chart_values :: "jsval list"
  chart_labels :: "jsval list"
  chart_max :: jsnum
  chart_accent :: jsval

definition MotionBars_setup :: "env \<Rightarrow> theme \<Rightarrow> jsval \<Rightarrow> jserror + bars_setup" where
  "MotionBars_setup e theme p =
     bnd (getp p (js ''color'')) (\<lambda>color.
     bnd (Object_assign []
       [(js ''display'', lit ''flex''),
        (js ''flexDirection'', lit ''column''),
        (js ''gap'', lit ''18px''),
        (js ''padding'', lit ''64px 72px''),
        (js ''boxSizing'', lit ''border-box''),
        (js ''color'', ToString (coalesce color (Str (textc theme)))),
        (js ''fontFamily'', BASE_FONT),
        (js ''height'', lit ''100%''),
        (js ''justifyContent'', lit ''center'')]) (\<lambda>st.
     bnd (getp p (js ''eyebrow'')) (\<lambda>eyebrow.
     bnd (text_if eyebrow
       [(js ''fontSize'', lit ''18px''), (js ''letterSpacing'', lit ''0.24em''),
        (js ''textTransform'', lit ''uppercase''), (js ''opacity'', lit ''0.6'')]) (\<lambda>k1.
     bnd (getp p (js ''title'')) (\<lambda>title.
     bnd (text_if title
       [(js ''fontSize'', lit ''48px''), (js ''fontWeight'', lit ''600''),
        (js ''fontFamily'', HEADING_FONT)]) (\<lambda>k2.
     bnd (getp p (js ''subtitle'')) (\<lambda>subtitle.
     bnd (text_if subtitle
       [(js ''fontSize'', lit ''24px''), (js ''opacity'', lit ''0.8'')]) (\<lambda>k3.
     bnd (Object_assign []
       [(js ''display'', lit ''grid''),
        (js ''gridTemplateColumns'', lit ''repeat(6, minmax(0, 1fr))''),
        (js ''gap'', lit ''18px''),
        (js ''alignItems'', lit ''end''),
        (js ''height'', lit ''320px''),
        (js ''paddingTop'', lit ''8px'')]) (\<lambda>chartst.
     bnd (getp p (js ''values'')) (\<lambda>pv.
     let values = (case pv of Arr xs \<Rightarrow> xs | _ \<Rightarrow> default_values) in
     bnd (getp p (js ''labels'')) (\<lambda>pl.
     let labels = (case pl of Arr xs \<Rightarrow> xs | _ \<Rightarrow> []) in
     bnd (bars_max e values) (\<lambda>mx.
     bnd (getp p (js ''accent'')) (\<lambda>pa.
     Inr \<lparr> wrap_style = st, heading = k1 @ k2 @ k3, chart_style = chartst,
           chart_values = values, chart_labels = labels, chart_max = mx,
           chart_accent = coalesce pa (Str (accent theme)) \<rparr>)))))))))))))"

definition MotionBars_render :: "env \<Rightarrow> element \<Rightarrow> element \<times> jserror option" where
  "MotionBars_render e this =
     (let p = parseProps (props this);
          this1 = clear this;
          theme = getRootTheme e this1
      in case MotionBars_setup e theme p of
           Inl err \<Rightarrow> (this1, Some err)
         | Inr s \<Rightarrow>
             (case bars_forEach (chart_accent s) (chart_labels s) (chart_max s)
                     (chart_values s) 0 [] [] of
                (bars, Inl err) \<Rightarrow> (this1\<lparr>barNodes := bars\<rparr>, Some err)
              | (bars, Inr cols) \<Rightarrow>
                  (appendChild (this1\<lparr>barNodes := bars\<rparr>)
                     (Element (js ''div'') (wrap_style s) []
                        (heading s @ [Element (js ''div'') (chart_style s) [] cols])),
                   None)))"

subsection \<open>BulletListElement\<close>

definition BulletList_wrap :: "theme \<Rightarrow> jsval \<Rightarrow> jserror + node" where
  "BulletList_wrap theme p =
     bnd (getp p (js ''color'')) (\<lambda>color.
     bnd (Object_assign []
       [(js ''display'', lit ''flex''), (js ''flexDirection'', lit ''column''),
        (js ''gap'', lit ''18px''), (js ''padding'', lit ''64px 72px''),
        (js ''boxSizing'', lit ''border-box''),
        (js ''color'', ToString (coalesce color (Str (textc theme)))),
        (js ''fontFamily'', BASE_FONT)]) (\<lambda>st.
     bnd (getp p (js ''eyebrow'')) (\<lambda>eyebrow.
     bnd (text_if eyebrow
       [(js ''fontSize'', lit ''18px''), (js ''letterSpacing'', lit ''0.24em''),
        (js ''textTransform'', lit ''uppercase''), (js ''opacity'', lit ''0.6'')]) (\<lambda>k1.
     bnd (getp p (js ''title'')) (\<lambda>title.
     bnd (text_if title
       [(js ''fontSize'', lit ''48px''), (js ''fontWeight'', lit ''600''),
        (js ''fontFamily'', HEADING_FONT)]) (\<lambda>k2.
     bnd (getp p (js ''subtitle'')) (\<lambda>subtitle.
     bnd (text_if subtitle
       [(js ''fontSize'', lit ''24px''), (js ''opacity'', lit ''0.8'')]) (\<lambda>k3.
     bnd (Object_assign []
       [(js ''margin'', lit ''0''), (js ''paddingLeft'', lit ''28px''),
        (js ''fontSize'', lit ''26px''), (js ''lineHeight'', lit ''1.45'')]) (\<lambda>listst.
     let items = coalesce (getq (getq p (js ''bullets'')) (js ''items'')) (Arr []) in
     bnd (iterate items) (\<lambda>its.
     bnd (for_each (\<lambda>item. bnd (ToString item) (\<lambda>t. Inr (Element (js ''li'') [] t []))) its) (\<lambda>lis.
     Inr (Element (js ''div'') st []
            (k1 @ k2 @ k3 @ [Element (js ''ul'') listst [] lis])))))))))))))"

definition BulletList_render :: "env \<Rightarrow> element \<Rightarrow> element \<times> jserror option" where
  "BulletList_render e this =
     (let p = parseProps (props this);
          this1 = clear this;
          theme = getRootTheme e this1
      in case BulletList_wrap theme p of
           Inl err \<Rightarrow> (this1, Some err)
         | Inr wrap \<Rightarrow> (appendChild this1 wrap, None))"

subsection \<open>TwoColumnElement\<close>

text \<open>
  The four pane texts are handed to \<open>makeText\<close> unconverted; they become strings when
  assigned to \<open>textContent\<close>.
\<close>

definition TwoColumn_wrap :: "theme \<Rightarrow> jsval \<Rightarrow> jserror + node" where
  "TwoColumn_wrap theme p =
     bnd (getp p (js ''color'')) (\<lambda>color.
     bnd (Object_assign []
       [(js ''display'', lit ''grid''), (js ''gridTemplateColumns'', lit ''1fr 1fr''),
        (js ''gap'', lit ''32px''), (js ''padding'', lit ''64px 72px''),
        (js ''boxSizing'', lit ''border-box''),
        (js ''color'', ToString (coalesce color (Str (textc theme)))),
        (js ''fontFamily'', BASE_FONT), (js ''height'', lit ''100%'')]) (\<lambda>st.
     bnd (getp p (js ''eyebrow'')) (\<lambda>eyebrow.
     bnd (text_if eyebrow
       [(js ''fontSize'', lit ''18px''), (js ''letterSpacing'', lit ''0.24em''),
        (js ''textTransform'', lit ''uppercase''), (js ''opacity'', lit ''0.6'')]) (\<lambda>k1.
     bnd (getp p (js ''title'')) (\<lambda>title.
     bnd (text_if title
       [(js ''fontSize'', lit ''48px''), (js ''fontWeight'', lit ''600''),
        (js ''fontFamily'', HEADING_FONT)]) (\<lambda>k2.
     bnd (getp p (js ''subtitle'')) (\<lambda>subtitle.
     bnd (text_if subtitle
       [(js ''fontSize'', lit ''24px''), (js ''opacity'', lit ''0.8'')]) (\<lambda>k3.
     bnd (ToString (coalesce (getq (getq (getq p (js ''left'')) (js ''props'')) (js ''label'')) (Str (js ''Left'')))) (\<lambda>t1.
     bnd (makeText t1
       [(js ''fontSize'', lit ''22px''), (js ''fontWeight'', lit ''600''),
        (js ''marginBottom'', lit ''12px''), (js ''fontFamily'', HEADING_FONT)]) (\<lambda>l1.
     bnd (ToString (coalesce (getq (getq (getq p (js ''left'')) (js ''props'')) (js ''text'')) (Str ([])))) (\<lambda>t2.
     bnd (makeText t2
       [(js ''fontSize'', lit ''20px''), (js ''opacity'', lit ''0.85'')]) (\<lambda>l2.
     bnd (ToString (coalesce (getq (getq (getq p (js ''right'')) (js ''props'')) (js ''label'')) (Str (js ''Right'')))) (\<lambda>t3.
     bnd (makeText t3
       [(js ''fontSize'', lit ''22px''), (js ''fontWeight'', lit ''600''),
        (js ''marginBottom'', lit ''12px''), (js ''fontFamily'', HEADING_FONT)]) (\<lambda>r1.
     bnd (ToString (coalesce (getq (getq (getq p (js ''right'')) (js ''props'')) (js ''text'')) (Str ([])))) (\<lambda>t4.
     bnd (makeText t4
       [(js ''fontSize'', lit ''20px''), (js ''opacity'', lit ''0.85'')]) (\<lambda>r2.
     Inr (Element (js ''div'') st []
            [Element (js ''div'') [(js ''gridColumn'', [Lit (js ''1 / -1'')])] [] (k1 @ k2 @ k3),
             Element (js ''div'') [] [] [l1, l2],
             Element (js ''div'') [] [] [r1, r2]])))))))))))))))))"

definition TwoColumn_render :: "env \<Rightarrow> element \<Rightarrow> element \<times> jserror option" where
  "TwoColumn_render e this =
     (let p = parseProps (props this);
          this1 = clear this;
          theme = getRootTheme e this1
      in case TwoColumn_wrap theme p of
           Inl err \<Rightarrow> (this1, Some err)
         | Inr wrap \<Rightarrow> (appendChild this1 wrap, None))"

subsection \<open>ChapterHeadingElement\<close>

definition ChapterHeading_wrap :: "theme \<Rightarrow> jsval \<Rightarrow> jserror + node" where
  "ChapterHeading_wrap theme p =
     bnd (getp p (js ''color'')) (\<lambda>color.
     bnd (Object_assign []
       [(js ''display'', lit ''flex''), (js ''alignItems'', lit ''center''),
        (js ''gap'', lit ''32px''), (js ''padding'', lit ''64px 72px''),
        (js ''boxSizing'', lit ''border-box''),
        (js ''color'', ToString (coalesce color (Str (textc theme)))),
        (js ''fontFamily'', BASE_FONT), (js ''height'', lit ''100%'')]) (\<lambda>st.
     bnd (getp p (js ''showNumber'')) (\<lambda>sn.
     let showNumber = (sn \<noteq> Bool False) in
     bnd (getp p (js ''number'')) (\<lambda>num.
     bnd (ToString (coalesce num (Str (js ''01'')))) (\<lambda>nt.
     bnd (makeText nt
       [(js ''fontSize'', lit ''80px''), (js ''fontWeight'', lit ''700''),
        (js ''opacity'', lit ''0.8''), (js ''fontFamily'', HEADING_FONT)]) (\<lambda>number.
     bnd (getp p (js ''title'')) (\<lambda>title.
     bnd (text_if title
       [(js ''fontSize'', lit ''48px''), (js ''fontWeight'', lit ''600''),
        (js ''fontFamily'', HEADING_FONT)]) (\<lambda>k1.
     bnd (getp p (js ''subtitle'')) (\<lambda>subtitle.
     bnd (text_if subtitle
       [(js ''fontSize'', lit ''24px''), (js ''opacity'', lit ''0.8'')]) (\<lambda>k2.
     Inr (Element (js ''div'') st []
            ((if showNumber then [number] else []) @ [Element (js ''div'') [] [] (k1 @ k2)]))))))))))))"

definition ChapterHeading_render :: "env \<Rightarrow> element \<Rightarrow> element \<times> jserror option" where
  "ChapterHeading_render e this =
     (let p = parseProps (props this);
          this1 = clear this;
          theme = getRootTheme e this1
      in case ChapterHeading_wrap theme p of
           Inl err \<Rightarrow> (this1, Some err)
         | Inr wrap \<Rightarrow> (appendChild this1 wrap, None))"

subsection \<open>VideoTitleElement\<close>

definition VideoTitle_wrap :: "theme \<Rightarrow> jsval \<Rightarrow> jserror + node" where
  "VideoTitle_wrap theme p =
     bnd (getp p (js ''text'')) (\<lambda>text.
     bnd (ToString (coalesce text (Str []))) (\<lambda>t.
     bnd (px (coalesce (getq (getq p (js ''position'')) (js ''x'')) (Num (Fin 0)))) (\<lambda>left.
     bnd (px (coalesce (getq (getq p (js ''position'')) (js ''y'')) (Num (Fin 0)))) (\<lambda>top.
     bnd (getp p (js ''fontSize'')) (\<lambda>fs.
     bnd (px (coalesce fs (Num (Fin 48)))) (\<lambda>fontSize.
     bnd (getp p (js ''color'')) (\<lambda>color.
     makeText t
       [(js ''position'', lit ''absolute''), (js ''left'', Inr left),
        (js ''top'', Inr top), (js ''fontSize'', Inr fontSize),
        (js ''color'', ToString (coalesce color (Str (textc theme)))),
        (js ''fontFamily'', HEADING_FONT), (js ''fontWeight'', lit ''600'')])))))))"

definition VideoTitle_render :: "env \<Rightarrow> element \<Rightarrow> element \<times> jserror option" where
  "VideoTitle_render e this =
     (let p = parseProps (props this);
          this1 = clear this;
          theme = getRootTheme e this1
      in case VideoTitle_wrap theme p of
           Inl err \<Rightarrow> (this1, Some err)
         | Inr wrap \<Rightarrow> (appendChild this1 wrap, None))"

subsection \<open>VideoSubtitleElement\<close>

definition VideoSubtitle_wrap :: "theme \<Rightarrow> jsval \<Rightarrow> jserror + node" where
  "VideoSubtitle_wrap theme p =
     bnd (getp p (js ''text'')) (\<lambda>text.
     bnd (ToString (coalesce text (Str []))) (\<lambda>t.
     bnd (px (coalesce (getq (getq p (js ''position'')) (js ''x'')) (Num (Fin 0)))) (\<lambda>left.
     bnd (px (coalesce (getq (getq p (js ''position'')) (js ''y'')) (Num (Fin 0)))) (\<lambda>top.
     bnd (getp p (js ''fontSize'')) (\<lambda>fs.
     bnd (px (coalesce fs (Num (Fin 32)))) (\<lambda>fontSize.
     bnd (getp p (js ''color'')) (\<lambda>color.
     makeText t
       [(js ''position'', lit ''absolute''), (js ''left'', Inr left),
        (js ''top'', Inr top), (js ''fontSize'', Inr fontSize),
        (js ''color'', ToString (coalesce color (Str (muted theme)))),
        (js ''fontFamily'', BASE_FONT), (js ''fontWeight'', lit ''400'')])))))))"

definition VideoSubtitle_render :: "env \<Rightarrow> element \<Rightarrow> element \<times> jserror option" where
  "VideoSubtitle_render e this =
     (let p = parseProps (props this);
          this1 = clear this;
          theme = getRootTheme e this1
      in case VideoSubtitle_wrap theme p of
           Inl err \<Rightarrow> (this1, Some err)
         | Inr wrap \<Rightarrow> (appendChild this1 wrap, None))"

subsection \<open>VideoRectangleElement\<close>

definition VideoRectangle_wrap :: "theme \<Rightarrow> jsval \<Rightarrow> jserror + node" where
  "VideoRectangle_wrap theme p =
     bnd (px (coalesce (getq (getq p (js ''position'')) (js ''x'')) (Num (Fin 0)))) (\<lambda>left.
     bnd (px (coalesce (getq (getq p (js ''position'')) (js ''y'')) (Num (Fin 0)))) (\<lambda>top.
     bnd (getp p (js ''width'')) (\<lambda>w.
     bnd (px (coalesce w (Num (Fin 100)))) (\<lambda>width.
     bnd (getp p (js ''height'')) (\<lambda>h.
     bnd (px (coalesce h (Num (Fin 100)))) (\<lambda>height.
     bnd (getp p (js ''color'')) (\<lambda>color.
     bnd (Object_assign []
       [(js ''position'', lit ''absolute''), (js ''left'', Inr left),
        (js ''top'', Inr top), (js ''width'', Inr width), (js ''height'', Inr height),
        (js ''background'', ToString (coalesce color (Str (background theme))))]) (\<lambda>st.
     Inr (Element (js ''div'') st [] [])))))))))"

definition VideoRectangle_render :: "env \<Rightarrow> element \<Rightarrow> element \<times> jserror option" where
  "VideoRectangle_render e this =
     (let p = parseProps (props this);
          this1 = clear this;
          theme = getRootTheme e this1
      in case VideoRectangle_wrap theme p of
           Inl err \<Rightarrow> (this1, Some err)
         | Inr wrap \<Rightarrow> (appendChild this1 wrap, None))"

subsection \<open>BackgroundElement\<close>

definition Background_wrap :: "theme \<Rightarrow> jsval \<Rightarrow> jserror + node" where
  "Background_wrap theme p =
     bnd (getp p (js ''color'')) (\<lambda>color.
     bnd (if nullish color then getp p (js ''background'') else Inr Undefined) (\<lambda>bg.
     bnd (Object_assign []
       [(js ''position'', lit ''absolute''), (js ''inset'', lit ''0''),
        (js ''width'', lit ''100%''), (js ''height'', lit ''100%''),
        (js ''background'', ToString (coalesce (coalesce color bg) (Str (background theme))))]) (\<lambda>st.
     Inr (Element (js ''div'') st [] []))))"

definition Background_render :: "env \<Rightarrow> element \<Rightarrow> element \<times> jserror option" where
  "Background_render e this =
     (let p = parseProps (props this);
          this1 = clear this;
          theme = getRootTheme e this1
      in case Background_wrap theme p of
           Inl err \<Rightarrow> (this1, Some err)
         | Inr wrap \<Rightarrow> (appendChild this1 wrap, None))"

subsection \<open>ProgressBarElement\<close>

definition ProgressBar_wrap :: "theme \<Rightarrow> jsval \<Rightarrow> jserror + node" where
  "ProgressBar_wrap theme p =
     bnd (Object_assign []
       [(js ''display'', lit ''flex''), (js ''flexDirection'', lit ''column''),
        (js ''gap'', lit ''12px''), (js ''padding'', lit ''32px''),
        (js ''width'', lit ''100%''), (js ''boxSizing'', lit ''border-box''),
        (js ''color'', str (textc theme)), (js ''fontFamily'', BASE_FONT)]) (\<lambda>st.
     bnd (getp p (js ''label'')) (\<lambda>l0.
     bnd (if nullish l0 then getp p (js ''title'') else Inr Undefined) (\<lambda>l1.
     let label = coalesce (coalesce l0 l1) (Str (js ''Progress'')) in
     bnd (ToString label) (\<lambda>lt.
     bnd (makeText lt
       [(js ''fontSize'', lit ''20px''), (js ''opacity'', lit ''0.8'')]) (\<lambda>labelnode.
     bnd (Object_assign []
       [(js ''height'', lit ''12px''), (js ''background'', str (surface theme)),
        (js ''borderRadius'', lit ''999px''), (js ''overflow'', lit ''hidden'')]) (\<lambda>barst.
     bnd (getp p (js ''progress'')) (\<lambda>v0.
     bnd (if nullish v0 then getp p (js ''percent'') else Inr Undefined) (\<lambda>v1.
     bnd (ToNumber (coalesce (coalesce v0 v1) (Num (Fin 50)))) (\<lambda>n.
     let pct = Math_max [Fin 0, Math_min [Fin 100, n]] in
     bnd (Object_assign []
       [(js ''height'', lit ''100%''), (js ''width'', Inr [NumStr pct, Lit (js ''%'')]),
        (js ''background'', str (accent theme))]) (\<lambda>fillst.
     Inr (Element (js ''div'') st []
            [labelnode, Element (js ''div'') barst [] [Element (js ''div'') fillst [] []]])))))))))))"

definition ProgressBar_render :: "env \<Rightarrow> element \<Rightarrow> element \<times> jserror option" where
  "ProgressBar_render e this =
     (let p = parseProps (props this);
          this1 = clear this;
          theme = getRootTheme e this1
      in case ProgressBar_wrap theme p of
           Inl err \<Rightarrow> (this1, Some err)
         | Inr wrap \<Rightarrow> (appendChild this1 wrap, None))"

subsection \<open>QuoteCardElement\<close>

definition QuoteCard_wrap :: "env \<Rightarrow> theme \<Rightarrow> jsval \<Rightarrow> jserror + node" where
  "QuoteCard_wrap e theme p =
     (let card = set_style (set_style (makeCard e (Fin 36)) (js ''background'') [Lit (surface theme)])
                  (js ''color'') [Lit (textc theme)] in
     bnd (getp p (js ''quote'')) (\<lambda>q0.
     bnd (if nullish q0 then getp p (js ''text'') else Inr Undefined) (\<lambda>q1.
     bnd (ToString (coalesce (coalesce q0 q1) (Str (js ''Quote'')))) (\<lambda>qt.
     bnd (makeText (Lit [0x201C] # qt @ [Lit [0x201D]])
       [(js ''fontSize'', lit ''30px''), (js ''lineHeight'', lit ''1.4''),
        (js ''fontFamily'', HEADING_FONT)]) (\<lambda>quote.
     bnd (getp p (js ''attribution'')) (\<lambda>attribution.
     bnd (if truthy attribution then Inr attribution else getp p (js ''author'')) (\<lambda>shown.
     bnd (if truthy shown then
            bnd (if nullish attribution then getp p (js ''author'') else Inr attribution) (\<lambda>a.
            bnd (ToString a) (\<lambda>atext.
            bnd (makeText atext
              [(js ''fontSize'', lit ''18px''), (js ''opacity'', lit ''0.7'')]) (\<lambda>n. Inr [n])))
          else Inr []) (\<lambda>k.
     Inr (append_kids card (quote # k))))))))))"

definition QuoteCard_render :: "env \<Rightarrow> element \<Rightarrow> element \<times> jserror option" where
  "QuoteCard_render e this =
     (let p = parseProps (props this);
          this1 = clear this;
          theme = getRootTheme e this1
      in case QuoteCard_wrap e theme p of
           Inl err \<Rightarrow> (this1, Some err)
         | Inr wrap \<Rightarrow> (appendChild this1 wrap, None))"

subsection \<open>LowerThirdElement\<close>

definition LowerThird_wrap :: "env \<Rightarrow> theme \<Rightarrow> jsval \<Rightarrow> jserror + node" where
  "LowerThird_wrap e theme p =
     (let card = set_style (set_style (makeCard e (Fin 20)) (js ''background'') [Lit (surface theme)])
                  (js ''color'') [Lit (textc theme)] in
     bnd (assign_style card
       [(js ''position'', lit ''absolute''), (js ''left'', lit ''48px''),
        (js ''bottom'', lit ''48px''), (js ''maxWidth'', lit ''520px'')]) (\<lambda>card1.
     bnd (getp p (js ''title'')) (\<lambda>k1a.
     bnd (if truthy k1a then Inr k1a else getp p (js ''name'')) (\<lambda>k1s.
     bnd (if truthy k1s then
            bnd (if nullish k1a then getp p (js ''name'') else Inr k1a) (\<lambda>v.
            bnd (ToString v) (\<lambda>t.
            bnd (makeText t
              [(js ''fontSize'', lit ''26px''), (js ''fontWeight'', lit ''600''),
               (js ''fontFamily'', HEADING_FONT)]) (\<lambda>n. Inr [n])))
          else Inr []) (\<lambda>k1.
     bnd (getp p (js ''subtitle'')) (\<lambda>k2a.
     bnd (if truthy k2a then Inr k2a else getp p (js ''role'')) (\<lambda>k2s.
     bnd (if truthy k2s then
            bnd (if nullish k2a then getp p (js ''role'') else Inr k2a) (\<lambda>v.
            bnd (ToString v) (\<lambda>t.
            bnd (makeText t
              [(js ''fontSize'', lit ''18px''), (js ''opacity'', lit ''0.8'')]) (\<lambda>n. Inr [n])))
          else Inr []) (\<lambda>k2.
     Inr (append_kids card1 (k1 @ k2))))))))))"

definition LowerThird_render :: "env \<Rightarrow> element \<Rightarrow> element \<times> jserror option" where
  "LowerThird_render e this =
     (let p = parseProps (props this);
          this1 = clear this;
          theme = getRootTheme e this1
      in case LowerThird_wrap e theme p of
           Inl err \<Rightarrow> (this1, Some err)
         | Inr wrap \<Rightarrow> (appendChild this1 wrap, None))"

subsection \<open>CalloutElement\<close>

definition Callout_wrap :: "env \<Rightarrow> theme \<Rightarrow> jsval \<Rightarrow> jserror + node" where
  "Callout_wrap e theme p =
     (let card = set_style (set_style (makeCard e (Fin 28)) (js ''background'') [Lit (surface theme)])
                  (js ''color'') [Lit (textc theme)] in
     bnd (assign_style card
       [(js ''maxWidth'', lit ''720px''), (js ''margin'', lit ''48px'')]) (\<lambda>card1.
     bnd (getp p (js ''title'')) (\<lambda>title.
     bnd (text_if title
       [(js ''fontSize'', lit ''28px''), (js ''fontWeight'', lit ''600'')]) (\<lambda>k1.
     bnd (getp p (js ''body'')) (\<lambda>k2a.
     bnd (if truthy k2a then Inr k2a else getp p (js ''text'')) (\<lambda>k2s.
     bnd (if truthy k2s then
            bnd (if nullish k2a then getp p (js ''text'') else Inr k2a) (\<lambda>v.
            bnd (ToString v) (\<lambda>t.
            bnd (makeText t
              [(js ''fontSize'', lit ''20px''), (js ''opacity'', lit ''0.85'')]) (\<lambda>n. Inr [n])))
          else Inr []) (\<lambda>k2.
     Inr (append_kids card1 (k1 @ k2)))))))))"

definition Callout_render :: "env \<Rightarrow> element \<Rightarrow> element \<times> jserror option" where
  "Callout_render e this =
     (let p = parseProps (props this);
          this1 = clear this;
          theme = getRootTheme e this1
      in case Callout_wrap e theme p of
           Inl err \<Rightarrow> (this1, Some err)
         | Inr wrap \<Rightarrow> (appendChild this1 wrap, None))"

subsection \<open>ChyronElement\<close>

definition Chyron_wrap :: "env \<Rightarrow> theme \<Rightarrow> jsval \<Rightarrow> jserror + node" where
  "Chyron_wrap e theme p =
     (let card = set_style (set_style (makeCard e (Fin 18)) (js ''background'') [Lit (surface theme)])
                  (js ''color'') [Lit (textc theme)] in
     bnd (assign_style card
       [(js ''position'', lit ''absolute''), (js ''left'', lit ''48px''),
        (js ''bottom'', lit ''48px''), (js ''maxWidth'', lit ''640px'')]) (\<lambda>card1.
     bnd (getp p (js ''label'')) (\<lambda>l0.
     bnd (if nullish l0 then getp p (js ''title'') else Inr Undefined) (\<lambda>l1.
     bnd (ToString (coalesce (coalesce l0 l1) (Str (js ''Chyron'')))) (\<lambda>lt.
     bnd (makeText lt
       [(js ''fontSize'', lit ''18px''), (js ''opacity'', lit ''0.7'')]) (\<lambda>labelnode.
     bnd (getp p (js ''text'')) (\<lambda>text.
     bnd (text_if text
       [(js ''fontSize'', lit ''22px'')]) (\<lambda>k.
     Inr (append_kids card1 (labelnode # k))))))))))"

definition Chyron_render :: "env \<Rightarrow> element \<Rightarrow> element \<times> jserror option" where
  "Chyron_render e this =
     (let p = parseProps (props this);
          this1 = clear this;
          theme = getRootTheme e this1
      in case Chyron_wrap e theme p of
           Inl err \<Rightarrow> (this1, Some err)
         | Inr wrap \<Rightarrow> (appendChild this1 wrap, None))"

subsection \<open>CodeBlockElement\<close>

definition CodeBlock_wrap :: "theme \<Rightarrow> jsval \<Rightarrow> jserror + node" where
  "CodeBlock_wrap theme p =
     bnd (getp p (js ''code'')) (\<lambda>c0.
     bnd (if nullish c0 then getp p (js ''text'') else Inr Undefined) (\<lambda>c1.
     bnd (ToString (coalesce (coalesce c0 c1) (Str (js ''// code'')))) (\<lambda>t.
     bnd (Object_assign []
       [(js ''background'', str (recess theme)), (js ''color'', str (textc theme)),
        (js ''padding'', lit ''24px''), (js ''borderRadius'', lit ''18px''),
        (js ''fontSize'', lit ''18px''),
        (js ''fontFamily'', lit ''ui-monospace, SFMono-Regular, Menlo, Monaco, Consolas, monospace''),
        (js ''lineHeight'', lit ''1.5''), (js ''margin'', lit ''48px''),
        (js ''whiteSpace'', lit ''pre-wrap'')]) (\<lambda>st.
     Inr (Element (js ''pre'') st t [])))))"

definition CodeBlock_render :: "env \<Rightarrow> element \<Rightarrow> element \<times> jserror option" where
  "CodeBlock_render e this =
     (let p = parseProps (props this);
          this1 = clear this;
          theme = getRootTheme e this1
      in case CodeBlock_wrap theme p of
           Inl err \<Rightarrow> (this1, Some err)
         | Inr wrap \<Rightarrow> (appendChild this1 wrap, None))"

subsection \<open>ContentScreenElement\<close>

definition ContentScreen_wrap :: "theme \<Rightarrow> jsval \<Rightarrow> jserror + node" where
  "ContentScreen_wrap theme p =
     bnd (Object_assign []
       [(js ''display'', lit ''flex''), (js ''flexDirection'', lit ''column''),
        (js ''gap'', lit ''12px''), (js ''padding'', lit ''64px''),
        (js ''color'', str (textc theme)), (js ''fontFamily'', BASE_FONT)]) (\<lambda>st.
     bnd (getp p (js ''title'')) (\<lambda>title.
     bnd (text_if title
       [(js ''fontSize'', lit ''48px''), (js ''fontWeight'', lit ''600''),
        (js ''fontFamily'', HEADING_FONT)]) (\<lambda>k1.
     bnd (getp p (js ''subtitle'')) (\<lambda>subtitle.
     bnd (text_if subtitle
       [(js ''fontSize'', lit ''24px''), (js ''opacity'', lit ''0.8'')]) (\<lambda>k2.
     Inr (Element (js ''div'') st [] (k1 @ k2)))))))"

definition ContentScreen_render :: "env \<Rightarrow> element \<Rightarrow> element \<times> jserror option" where
  "ContentScreen_render e this =
     (let p = parseProps (props this);
          this1 = clear this;
          theme = getRootTheme e this1
      in case ContentScreen_wrap theme p of
           Inl err \<Rightarrow> (this1, Some err)
         | Inr wrap \<Rightarrow> (appendChild this1 wrap, None))"

subsection \<open>ThreeColumnElement\<close>

definition ThreeColumn_card :: "env \<Rightarrow> jsval \<Rightarrow> jserror + node" where
  "ThreeColumn_card e col =
     (let card = makeCard e (Fin 24) in
      bnd (ToString (coalesce (getq col (js ''title'')) (Str (js ''Column'')))) (\<lambda>t.
      bnd (makeText t
        [(js ''fontSize'', lit ''22px''), (js ''fontWeight'', lit ''600''),
         (js ''fontFamily'', HEADING_FONT)]) (\<lambda>n1.
      bnd (text_if (getq col (js ''text''))
        [(js ''fontSize'', lit ''18px''), (js ''opacity'', lit ''0.85'')]) (\<lambda>k2.
      Inr (append_kids card (n1 # k2))))))"

definition ThreeColumn_wrap :: "env \<Rightarrow> theme \<Rightarrow> jsval \<Rightarrow> jserror + node" where
  "ThreeColumn_wrap e theme p =
     bnd (Object_assign []
       [(js ''display'', lit ''grid''),
        (js ''gridTemplateColumns'', lit ''repeat(3, minmax(0, 1fr))''),
        (js ''gap'', lit ''24px''), (js ''padding'', lit ''64px''),
        (js ''color'', str (textc theme)), (js ''fontFamily'', BASE_FONT)]) (\<lambda>st.
     bnd (getp p (js ''columns'')) (\<lambda>c0.
     let columns = coalesce c0 (Arr []) in
     bnd (iterate columns) (\<lambda>cols.
     bnd (for_each (ThreeColumn_card e) cols) (\<lambda>cards.
     Inr (Element (js ''div'') st [] cards)))))"

definition ThreeColumn_render :: "env \<Rightarrow> element \<Rightarrow> element \<times> jserror option" where
  "ThreeColumn_render e this =
     (let p = parseProps (props this);
          this1 = clear this;
          theme = getRootTheme e this1
      in case ThreeColumn_wrap e theme p of
           Inl err \<Rightarrow> (this1, Some err)
         | Inr wrap \<Rightarrow> (appendChild this1 wrap, None))"

subsection \<open>DemoPlaceholderElement and FallbackElement\<close>

text \<open>
  These two classes have no \<open>render\<close>; \<open>connectedCallback\<close> fills the element once, if
  it has no child nodes. \<open>tagName this\<close> is \<open>this.tagName.toLowerCase()\<close>.
\<close>

definition DemoPlaceholder_connectedCallback :: "env \<Rightarrow> element \<Rightarrow> element \<times> jserror option" where
  "DemoPlaceholder_connectedCallback e this =
     (if childNodes this \<noteq> [] then (this, None)
      else
        (let card = makeCard e (Fin 24) in
         case bnd (makeText [Lit (js ''Demo: <''), Lit (tagName this), Lit (js ''>'')]
                     [(js ''fontSize'', lit ''20px''), (js ''fontWeight'', lit ''600'')]) (\<lambda>n1.
              bnd (makeText [Lit (js ''This demo component is a placeholder in the DOM runtime.'')]
                     [(js ''fontSize'', lit ''16px''), (js ''opacity'', lit ''0.75'')]) (\<lambda>n2.
              Inr (append_kids card [n1, n2]))) of
           Inl err \<Rightarrow> (this, Some err)
         | Inr c \<Rightarrow> (appendChild this c, None)))"

definition Fallback_connectedCallback :: "element \<Rightarrow> element \<times> jserror option" where
  "Fallback_connectedCallback this =
     (if childNodes this \<noteq> [] then (this, None)
      else
        (case Object_assign []
                [(js ''fontFamily'', lit ''system-ui, sans-serif''), (js ''fontSize'', lit ''14px''),
                 (js ''opacity'', lit ''0.6''), (js ''padding'', lit ''8px'')] of
           Inl err \<Rightarrow> (this, Some err)
         | Inr st \<Rightarrow>
             (appendChild this
                (Element (js ''div'') st [Lit (js ''<''), Lit (tagName this), Lit (js ''>'')] []),
              None)))"

section \<open>The registry\<close>

text \<open>
  The classes. Every \<open>defineAlias\<close> creates a class of its own, \<open>Alias n base\<close>, that
  extends \<open>base\<close> and adds nothing.
\<close>

datatype klass =
    TitleSlideElement | BulletListElement | MotionBarsElement | TwoColumnElement
  | ChapterHeadingElement | VideoTitleElement | VideoSubtitleElement | VideoRectangleElement
  | BackgroundElement | ProgressBarElement | QuoteCardElement | LowerThirdElement
  | CalloutElement | ChyronElement | CodeBlockElement | ContentScreenElement
  | GridScreenElement | ThreeColumnElement | DemoPlaceholderElement | FallbackElement
  | Alias nat klass

text \<open>
  The render step of a class: its \<open>render\<close>, or what \<open>connectedCallback\<close> renders for
  the two classes without one.
\<close>

fun render_step :: "klass \<Rightarrow> env \<Rightarrow> element \<Rightarrow> element \<times> jserror option" where
  "render_step TitleSlideElement = TitleSlide_render"
| "render_step BulletListElement = BulletList_render"
| "render_step MotionBarsElement = MotionBars_render"
| "render_step TwoColumnElement = TwoColumn_render"
| "render_step ChapterHeadingElement = ChapterHeading_render"
| "render_step VideoTitleElement = VideoTitle_render"
| "render_step VideoSubtitleElement = VideoSubtitle_render"
| "render_step VideoRectangleElement = VideoRectangle_render"
| "render_step BackgroundElement = Background_render"
| "render_step ProgressBarElement = ProgressBar_render"
| "render_step QuoteCardElement = QuoteCard_render"
| "render_step LowerThirdElement = LowerThird_render"
| "render_step CalloutElement = Callout_render"
| "render_step ChyronElement = Chyron_render"
| "render_step CodeBlockElement = CodeBlock_render"
| "render_step ContentScreenElement = ContentScreen_render"
| "render_step GridScreenElement = Grid_render"
| "render_step ThreeColumnElement = ThreeColumn_render"
| "render_step DemoPlaceholderElement = DemoPlaceholder_connectedCallback"
| "render_step FallbackElement = (\<lambda>e. Fallback_connectedCallback)"
| "render_step (Alias n b) = render_step b"


text \<open>
  \<open>customElements\<close>: the definitions made so far, the number of alias classes created,
  and the host's test for a valid custom element name. \<open>define\<close> of the host refuses an
  invalid name, a name already defined and a constructor already defined under another
  name.
\<close>

record registry =
  definitions :: "(jsstring \<times> klass) list"
  aliases :: nat
  valid_name :: "jsstring \<Rightarrow> bool"

definition customElements_get :: "registry \<Rightarrow> jsstring \<Rightarrow> klass option" where
  "customElements_get reg name = map_of (definitions reg) name"

definition customElements_define :: "registry \<Rightarrow> jsstring \<Rightarrow> klass \<Rightarrow> jserror + registry" where
  "customElements_define reg name k =
     (if \<not> valid_name reg name then Inl SyntaxError
      else if name \<in> fst ` set (definitions reg) then Inl NotSupportedError
      else if k \<in> snd ` set (definitions reg) then Inl NotSupportedError
      else Inr (reg\<lparr>definitions := definitions reg @ [(name, k)]\<rparr>))"

text \<open>
  The two helpers of \<open>registerVideoMLComponents\<close>, \<open>define\<close> (here \<open>define_tag\<close>) and
  \<open>defineAlias\<close>.
\<close>

definition define_tag :: "registry \<Rightarrow> jsstring \<Rightarrow> klass \<Rightarrow> jserror + registry" where
  "define_tag reg name ctor =
     (case customElements_get reg name of
        None \<Rightarrow> customElements_define reg name ctor
      | Some k \<Rightarrow> Inr reg)"

definition defineAlias :: "registry \<Rightarrow> jsstring \<Rightarrow> klass \<Rightarrow> jserror + registry" where
  "defineAlias reg name b =
     define_tag (reg\<lparr>aliases := Suc (aliases reg)\<rparr>) name (Alias (aliases reg) b)"

text \<open>
  The statements of \<open>registerVideoMLComponents\<close> in order: \<open>True\<close> marks a
  \<open>defineAlias\<close>, \<open>False\<close> a \<open>define\<close>.
\<close>

definition catalog :: "(bool \<times> string \<times> klass) list" where
  "catalog =
     [(False, ''title-slide'', TitleSlideElement),
      (True, ''title-slide-layout-demo'', TitleSlideElement),
      (True, ''bullet-list-screen'', BulletListElement),
      (True, ''bullet-list'', BulletListElement),
      (True, ''two-column-screen'', TwoColumnElement),
      (True, ''two-column-layout-demo'', TwoColumnElement),
      (False, ''chapter-heading'', ChapterHeadingElement),
      (False, ''content-screen'', ContentScreenElement),
      (False, ''grid-screen'', GridScreenElement),
      (False, ''three-column-screen'', ThreeColumnElement),
      (False, ''video-title'', VideoTitleElement),
      (False, ''video-subtitle'', VideoSubtitleElement),
      (False, ''video-rectangle'', VideoRectangleElement),
      (False, ''video-background'', BackgroundElement),
      (False, ''motion-bars'', MotionBarsElement),
      (False, ''progress-bar'', ProgressBarElement),
      (False, ''quote-card'', QuoteCardElement),
      (False, ''lower-third'', LowerThirdElement),
      (False, ''video-callout'', CalloutElement),
      (False, ''video-chyron'', ChyronElement),
      (False, ''code-block'', CodeBlockElement),
      (True, ''anime-harness-demo'', DemoPlaceholderElement),
      (True, ''d3-bar-chart'', DemoPlaceholderElement),
      (True, ''framer-motion-demo'', DemoPlaceholderElement),
      (True, ''lottie-badge'', DemoPlaceholderElement),
      (True, ''mix-and-match-demo'', DemoPlaceholderElement),
      (True, ''p5-particles'', DemoPlaceholderElement),
      (True, ''p5-neon-field'', DemoPlaceholderElement),
      (True, ''text-effects-demo'', DemoPlaceholderElement),
      (True, ''three-orbit'', DemoPlaceholderElement),
      (True, ''content-layout-demo'', DemoPlaceholderElement),
      (True, ''not-video'', DemoPlaceholderElement)]"

fun register_all :: "registry \<Rightarrow> (bool \<times> string \<times> klass) list \<Rightarrow> registry \<times> jserror option" where
  "register_all reg [] = (reg, None)"
| "register_all reg ((alias, name, k) # rest) =
     (case (if alias then defineAlias reg (js name) k else define_tag reg (js name) k) of
        Inl err \<Rightarrow> (reg, Some err)
      | Inr reg' \<Rightarrow> register_all reg' rest)"

text \<open>
  \<open>registerVideoMLComponents\<close> and \<open>registerFallbackComponents\<close> do nothing where the
  host has no \<open>customElements\<close>; the registry is \<open>None\<close> then.
\<close>

definition registerVideoMLComponents :: "registry option \<Rightarrow> registry option \<times> jserror option" where
  "registerVideoMLComponents ce =
     (case ce of
        None \<Rightarrow> (None, None)
      | Some reg \<Rightarrow> (case register_all reg catalog of (reg', err) \<Rightarrow> (Some reg', err)))"

text \<open>
  A scanned subtree: each element with \<open>el.tagName.toLowerCase()\<close> and its child
  elements. \<open>elements\<close> is the root followed by \<open>root.querySelectorAll("*")\<close>, in document
  order.
\<close>

datatype dom = El jsstring "dom list"

fun dom_tag :: "dom \<Rightarrow> jsstring" where
  "dom_tag (El t ks) = t"

fun elements :: "dom \<Rightarrow> dom list" where
  "elements (El t ks) = El t ks # concat (map elements ks)"

text \<open>\<open>tags.add(tag)\<close> on a \<open>Set\<close>, which keeps the order of first insertion.\<close>

definition set_add :: "'a list \<Rightarrow> 'a \<Rightarrow> 'a list" where
  "set_add xs x = (if x \<in> set xs then xs else xs @ [x])"

definition hyphenated :: "jsstring \<Rightarrow> bool" where
  "hyphenated t \<longleftrightarrow> 0x2D \<in> set t"

definition scan_tags :: "dom \<Rightarrow> jsstring list" where
  "scan_tags r = foldl set_add [] (filter hyphenated (map dom_tag (elements r)))"

fun register_tags :: "registry \<Rightarrow> jsstring list \<Rightarrow> registry \<times> jserror option" where
  "register_tags reg [] = (reg, None)"
| "register_tags reg (t # ts) =
     (case customElements_get reg t of
        Some k \<Rightarrow> register_tags reg ts
      | None \<Rightarrow>
          (case customElements_define reg t FallbackElement of
             Inl err \<Rightarrow> (reg, Some err)
           | Inr reg' \<Rightarrow> register_tags reg' ts))"

definition registerFallbackComponents ::
  "registry option \<Rightarrow> dom \<Rightarrow> registry option \<times> jserror option" where
  "registerFallbackComponents ce r =
     (case ce of
        None \<Rightarrow> (None, None)
      | Some reg \<Rightarrow> (case register_tags reg (scan_tags r) of (reg', err) \<Rightarrow> (Some reg', err)))"

section \<open>Timeline binding\<close>

text \<open>
  The part of the document the bar chart's timeline binding touches: for every element
  its list of \<open>timeline:tick\<close> listeners, the number of tick-handler closures created so
  far (each \<open>bindTimeline\<close> creates a new one), and the component instance itself.
  \<open>TickHandler n\<close> is the \<open>n\<close>-th closure created by the component's \<open>bindTimeline\<close>;
  \<open>Foreign n\<close> is a listener of somebody else, which does not touch the component.
\<close>

datatype listener = TickHandler nat | Foreign nat

record world =
  listeners :: "eid \<Rightarrow> listener list"
  closures :: nat
  comp :: element

definition addEventListener :: "world \<Rightarrow> eid \<Rightarrow> listener \<Rightarrow> world" where
  "addEventListener w target l =
     (if l \<in> set (listeners w target) then w
      else w\<lparr>listeners := (listeners w)(target := listeners w target @ [l])\<rparr>)"

definition removeEventListener :: "world \<Rightarrow> eid \<Rightarrow> listener \<Rightarrow> world" where
  "removeEventListener w target l =
     w\<lparr>listeners := (listeners w)(target := removeAll l (listeners w target))\<rparr>"

definition bindTimeline :: "world \<Rightarrow> world" where
  "bindTimeline w =
     (case closest (comp w) of
        None \<Rightarrow> w
      | Some r \<Rightarrow>
          (let w1 = (case tickHandler (comp w) of
                       Some h \<Rightarrow> removeEventListener w r (TickHandler h)
                     | None \<Rightarrow> w);
               h = closures w1;
               w2 = w1\<lparr>closures := Suc h, comp := (comp w1)\<lparr>tickHandler := Some h\<rparr>\<rparr>
           in addEventListener w2 r (TickHandler h)))"

definition disconnectedCallback :: "world \<Rightarrow> world" where
  "disconnectedCallback w =
     (case closest (comp w) of
        None \<Rightarrow> w
      | Some r \<Rightarrow>
          (case tickHandler (comp w) of
             Some h \<Rightarrow> removeEventListener w r (TickHandler h)
           | None \<Rightarrow> w))"

definition connectedCallback :: "env \<Rightarrow> world \<Rightarrow> world \<times> jserror option" where
  "connectedCallback e w =
     (case MotionBars_render e (comp w) of
        (c, Some err) \<Rightarrow> (w\<lparr>comp := c\<rparr>, Some err)
      | (c, None) \<Rightarrow> (bindTimeline (w\<lparr>comp := c\<rparr>), None))"

definition attributeChangedCallback :: "env \<Rightarrow> world \<Rightarrow> world \<times> jserror option" where
  "attributeChangedCallback e w =
     (case MotionBars_render e (comp w) of (c, err) \<Rightarrow> (w\<lparr>comp := c\<rparr>, err))"

text \<open>
  The body of the tick handler. The event carries \<open>detail.time\<close>, a number, or nothing
  (then the time is 0). Every bar in \<open>barNodes\<close> gets a new \<open>transform\<close>; nothing else
  is touched.
\<close>

definition tick_scale :: "jsnum \<Rightarrow> nat \<Rightarrow> jsnum \<Rightarrow> jsnum" where
  "tick_scale time idx b =
     (let scale = num_add (Fin 0.7)
                    (num_mul (Fin 0.3) (Math_sin (num_add (num_mul time (Fin 2)) (Fin (real idx)))))
      in Math_max [Fin 0.1, num_mul b scale])"

definition tick_bar :: "jsnum \<Rightarrow> nat \<Rightarrow> bar \<Rightarrow> bar" where
  "tick_bar time idx br =
     br\<lparr>bstyle := obj_put (bstyle br) (js ''transform'')
           [Lit (js ''scaleY(''), NumStr (tick_scale time idx (base br)), Lit (js '')'')]\<rparr>"

definition tickHandler_body :: "jsnum option \<Rightarrow> element \<Rightarrow> element" where
  "tickHandler_body detail_time this =
     (let time = (case detail_time of None \<Rightarrow> Fin 0 | Some t \<Rightarrow> t) in
      this\<lparr>barNodes := map (\<lambda>(idx, br). tick_bar time idx br)
                           (zip [0 ..< length (barNodes this)] (barNodes this))\<rparr>)"

text \<open>A \<open>timeline:tick\<close> event dispatched on \<open>target\<close>: its listeners run in order.\<close>

fun run_listener :: "jsnum option \<Rightarrow> element \<Rightarrow> listener \<Rightarrow> element" where
  "run_listener d c (TickHandler h) = tickHandler_body d c"
| "run_listener d c (Foreign n) = c"

definition dispatchTick :: "world \<Rightarrow> eid \<Rightarrow> jsnum option \<Rightarrow> world" where
  "dispatchTick w target d = w\<lparr>comp := foldl (run_listener d) (comp w) (listeners w target)\<rparr>"

text \<open>
  What happens to the component. \<open>Insert anc\<close>: it is inserted into the document with
  the ancestors \<open>anc\<close>, and \<open>connectedCallback\<close> runs. \<open>Remove k\<close>: its \<open>k\<close>-th
  ancestor (the component itself for \<open>k = 0\<close>) is removed from its parent, so the
  component keeps its first \<open>k\<close> ancestors, and \<open>disconnectedCallback\<close> runs, after the
  removal as the host does. \<open>SetProps v\<close>: the \<open>props\<close> attribute changes and
  \<open>attributeChangedCallback\<close> runs. \<open>Tick target d\<close>: a tick is dispatched on \<open>target\<close>.
  An exception thrown by a callback is reported by the host and goes no further.
\<close>

datatype event =
    Insert "(jsstring \<times> eid) list"
  | Remove nat
  | SetProps "jsstring option"
  | Tick eid "jsnum option"

fun step :: "env \<Rightarrow> world \<Rightarrow> event \<Rightarrow> world" where
  "step e w (Insert anc) = fst (connectedCallback e (w\<lparr>comp := (comp w)\<lparr>ancestors := anc\<rparr>\<rparr>))"
| "step e w (Remove k) =
     disconnectedCallback (w\<lparr>comp := (comp w)\<lparr>ancestors := take k (ancestors (comp w))\<rparr>\<rparr>)"
| "step e w (SetProps v) = fst (attributeChangedCallback e (w\<lparr>comp := (comp w)\<lparr>props := v\<rparr>\<rparr>))"
| "step e w (Tick target d) = dispatchTick w target d"

definition run :: "env \<Rightarrow> world \<Rightarrow> event list \<Rightarrow> world" where
  "run e w evs = foldl (step e) w evs"

text \<open>The tick handlers of the component that are registered anywhere, on the given targets.\<close>

definition subscriptions :: "world \<Rightarrow> eid list \<Rightarrow> (eid \<times> nat) list" where
  "subscriptions w targets =
     concat (map (\<lambda>t. concat (map (\<lambda>l. case l of TickHandler h \<Rightarrow> [(t, h)] | Foreign n \<Rightarrow> [])
                                  (listeners w t))) targets)"

text \<open>
  The presentation root among a list of ancestors; an event that keeps the component
  under the root \<open>r\<close> or under none; and the state of a component that has only ever been
  attached under \<open>r\<close>: every tick handler registered anywhere is the stored one, and it
  is registered on \<open>r\<close>.
\<close>

definition root_of :: "(jsstring \<times> eid) list \<Rightarrow> eid option" where
  "root_of anc = map_option snd (find (\<lambda>(t, i). is_root_tag t) anc)"

fun under_root :: "eid \<Rightarrow> event \<Rightarrow> bool" where
  "under_root r (Insert anc) = (root_of anc = None \<or> root_of anc = Some r)"
| "under_root r _ = True"

definition one_root :: "eid \<Rightarrow> world \<Rightarrow> bool" where
  "one_root r w \<longleftrightarrow>
     \<not> is_root_tag (tagName (comp w))
     \<and> (root_of (ancestors (comp w)) = None \<or> root_of (ancestors (comp w)) = Some r)
     \<and> (\<forall>t h. TickHandler h \<in> set (listeners w t) \<longrightarrow> t = r \<and> tickHandler (comp w) = Some h)
     \<and> (\<forall>t. distinct (listeners w t))"

section \<open>Sample inputs\<close>

text \<open>
  A document without design tokens on a host with the smallest argument bound, and a
  component instance \<open>el0 t a\<close> with tag \<open>t\<close> and
  attribute value \<open>a\<close> that has no parent and no children yet.
\<close>

definition env0 :: env where
  "env0 = \<lparr> computed = (\<lambda>el name. []), documentElement = 0, argument_headroom = 0 \<rparr>"

definition el0 :: "jsstring \<Rightarrow> jsstring option \<Rightarrow> element" where
  "el0 t a = \<lparr> tagName = t, ident = 1, props = a, ancestors = [], childNodes = [],
      barNodes = [], tickHandler = None \<rparr>"

text \<open>A document in which nothing listens yet, holding a bar chart without attributes.\<close>

definition world0 :: world where
  "world0 = \<lparr> listeners = (\<lambda>t. []), closures = 0, comp = el0 (js ''motion-bars'') None \<rparr>"

text \<open>
  The bar chart inserted under the presentation root 10, then ticked at time 0, then
  removed from its parent, then ticked once more at time 1/2; and the bar chart inserted
  under root 10, removed, and inserted under another presentation root, 20.
\<close>

definition w_attached :: world where
  "w_attached = step env0 world0 (Insert [(js ''vml'', 10)])"

definition w_ticked :: world where
  "w_ticked = step env0 w_attached (Tick 10 (Some (Fin 0)))"

definition w_detached :: world where
  "w_detached = step env0 w_ticked (Remove 0)"

definition w_late_tick :: world where
  "w_late_tick = step env0 w_detached (Tick 10 (Some (Fin (1/2))))"

definition w_removed :: world where
  "w_removed = step env0 w_attached (Remove 0)"

definition w_moved :: world where
  "w_moved = step env0 w_removed (Insert [(js ''vml'', 20)])"

text \<open>
  A host that takes as custom element names the names made of lower-case ASCII letters,
  digits and hyphens that start with a letter, hold a hyphen and are not reserved; an
  empty registry on that host; and a page with two unregistered hyphenated tags.
\<close>

definition sample_valid_name :: "jsstring \<Rightarrow> bool" where
  "sample_valid_name t \<longleftrightarrow>
     (case t of [] \<Rightarrow> False | c # cs \<Rightarrow> 0x61 \<le> c \<and> c \<le> 0x7A)
     \<and> hyphenated t
     \<and> list_all (\<lambda>c. (0x61 \<le> c \<and> c \<le> 0x7A) \<or> (0x30 \<le> c \<and> c \<le> 0x39) \<or> c = 0x2D) t
     \<and> t \<notin> set (map js [''annotation-xml'', ''color-profile'', ''font-face'',
           ''font-face-src'', ''font-face-uri'', ''font-face-format'', ''font-face-name'',
           ''missing-glyph''])"

definition reg0 :: registry where
  "reg0 = \<lparr> definitions = [], aliases = 0, valid_name = sample_valid_name \<rparr>"

definition page0 :: dom where
  "page0 = El (js ''div'') [El (js ''foo-bar'') [], El (js ''baz-qux'') []]"

text \<open>
  A document whose root sets the background token, padded with white space, and no other.
\<close>

definition env1 :: env where
  "env1 = \<lparr> computed = (\<lambda>el name. if name = js ''--background'' then js '' 210 40% 98% '' else []),
            documentElement = 0, argument_headroom = 0 \<rparr>"

text \<open>What a value is when it is a property bag: an object of keys and values.\<close>

fun is_bag :: "jsval \<Rightarrow> bool" where
  "is_bag (Obj kvs) = True"
| "is_bag _ = False"

text \<open>The text of a bar's height, \<open>`${Math.max(0.1, base) * 100}%`\<close>.\<close>

definition bar_height :: "jsnum \<Rightarrow> domstring" where
  "bar_height b = [NumStr (num_mul (Math_max [Fin 0.1, b]) (Fin 100)), Lit (js ''%'')]"

text \<open>The text of a bar's initial transform, \<open>`scaleY(${Math.max(0.1, base)})`\<close>.\<close>

definition bar_scale :: "jsnum \<Rightarrow> domstring" where
  "bar_scale b = [Lit (js ''scaleY(''), NumStr (Math_max [Fin 0.1, b]), Lit (js '')'')]"

section \<open>Theme resolution: results\<close>

lemma format_readCssVar:
  "format (readCssVar e scope name) dflt = slot_value e scope name dflt"
  by (simp add: format_def readCssVar_def slot_value_def Let_def)

lemma slot_value_populated: "dflt \<noteq> [] \<Longrightarrow> slot_value e scope name dflt \<noteq> []"
  by (simp add: slot_value_def js_def)

lemma defaults_distinct:
  "distinct [BRAND_notBlack, js ''#111827'', BRAND_notWhite, BRAND_muted, BRAND_accent,
     js ''#0b1220'']"
  by (simp add: BRAND_notBlack_def BRAND_notWhite_def BRAND_muted_def BRAND_accent_def js_def)

lemma defaults_populated:
  "BRAND_notBlack \<noteq> []" "BRAND_notWhite \<noteq> []" "BRAND_muted \<noteq> []" "BRAND_accent \<noteq> []"
  by (simp_all add: BRAND_notBlack_def BRAND_notWhite_def BRAND_muted_def BRAND_accent_def js_def)

text \<open>
  Claim C5. For every environment and every scope (given or absent), theme resolution
  returns a theme whose six slots are all non-empty; each slot is \<open>hsl(v)\<close> when the
  trimmed token \<open>v\<close> read from the scope is non-empty and the slot's own default otherwise;
  the six defaults are pairwise distinct. The function has no failing branch.
\<close>

theorem resolveTheme_total_populated:
  "(let th = resolveTheme e rt; scope = scope_of e rt in
      background th = slot_value e scope (js ''--background'') BRAND_notBlack
    \<and> surface th = slot_value e scope (js ''--card'') (js ''#111827'')
    \<and> textc th = slot_value e scope (js ''--foreground'') BRAND_notWhite
    \<and> muted th = slot_value e scope (js ''--muted-foreground'') BRAND_muted
    \<and> accent th = slot_value e scope (js ''--primary'') BRAND_accent
    \<and> recess th = slot_value e scope (js ''--recess'') (js ''#0b1220'')
    \<and> background th \<noteq> [] \<and> surface th \<noteq> [] \<and> textc th \<noteq> []
    \<and> muted th \<noteq> [] \<and> accent th \<noteq> [] \<and> recess th \<noteq> [])
   \<and> distinct [BRAND_notBlack, js ''#111827'', BRAND_notWhite, BRAND_muted, BRAND_accent,
        js ''#0b1220'']"
proof -
  note d = defaults_distinct
  have p: "js ''#111827'' \<noteq> []" "js ''#0b1220'' \<noteq> []"
    by (simp_all add: js_def)
  show ?thesis
    unfolding Let_def resolveTheme_def scope_of_def [symmetric] format_readCssVar
    using d defaults_populated p by (simp add: slot_value_populated)
qed

theorem resolveTheme_total_populated_witness:
  "background (resolveTheme env1 None) = js ''hsl(210 40% 98%)''
   \<and> surface (resolveTheme env1 None) = js ''#111827''
   \<and> recess (resolveTheme env1 None) = js ''#0b1220''"
  using resolveTheme_total_populated [of env1 None]
  by (simp add: Let_def slot_value_def scope_of_def env1_def trim_def is_space_def js_def)

section \<open>Evaluation\<close>

lemma bnd_Inr [simp]: "bnd (Inr x) f = f x"
  by (simp add: bnd_def)

lemma bnd_Inl [simp]: "bnd (Inl x) f = Inl x"
  by (simp add: bnd_def)

lemmas json_eval =
  JSON_parse_def js_def is_json_space_def lex_number_def read_decimal_def read_exponent_def
  is_digit_def digits_val_def to_double_def DOUBLE_LIMIT_def DOUBLE_TINY_def scale10_def Let_def

section \<open>Decoding: results\<close>

text \<open>
  Claim C4. An absent attribute, an empty one and one that \<open>JSON.parse\<close> rejects all
  decode to the empty bag; \<open>parseProps\<close> has no failing branch.
\<close>

theorem parseProps_fail_soft:
  "parseProps None = Obj []
   \<and> parseProps (Some []) = Obj []
   \<and> (\<forall>s. JSON_parse s = None \<longrightarrow> parseProps (Some s) = Obj [])"
  by (simp add: parseProps_def)

theorem parseProps_fail_soft_witness:
  "JSON_parse (js ''{bad'') = None \<and> parseProps (Some (js ''{bad'')) = Obj []"
proof -
  have h: "JSON_parse (js ''{bad'') = None"
    by (simp add: json_eval)
  with parseProps_fail_soft show ?thesis by blast
qed

text \<open>
  Claim C3 fails on the code. \<open>JSON.parse\<close> accepts any JSON text, not only objects,
  and \<open>parseProps\<close> returns what it accepts: the attribute \<open>null\<close> decodes to \<open>null\<close>,
  which is neither a bag nor the empty bag.
\<close>

theorem parseProps_null_not_bag:
  "parseProps (Some (js ''null'')) = Null \<and> \<not> is_bag (parseProps (Some (js ''null'')))"
  by (simp add: parseProps_def json_eval)

section \<open>The bar chart: results\<close>

lemma bar_column_Inr:
  assumes "bar_column a l mx raw idx = Inr (col, b)"
  shows "\<exists>n. coerce raw = Inr n \<and> base b = num_div n mx
           \<and> map_of (bstyle b) (js ''height'') = Some (bar_height (num_div n mx))
           \<and> map_of (bstyle b) (js ''transform'') = Some (bar_scale (num_div n mx))"
proof -
  from assms obtain n where n: "coerce raw = Inr n"
    unfolding bar_column_def by (cases "coerce raw") auto
  from assms n obtain t where t: "ToString a = Inr t"
    unfolding bar_column_def by (cases "ToString a") (auto simp: lit_def Let_def)
  from assms n t obtain lt where lt: "ToString (coalesce (index l idx) (Str [])) = Inr lt"
    unfolding bar_column_def
    by (cases "ToString (coalesce (index l idx) (Str []))") (auto simp: lit_def Let_def)
  from assms n t lt show ?thesis
    unfolding bar_column_def
    by (auto simp: lit_def Let_def js_def bar_height_def bar_scale_def)
qed

lemma bars_forEach_new:
  "bars_forEach a l mx vs idx cols bars = (bars', r) \<Longrightarrow>
   \<exists>new. bars' = bars @ new \<and> length new \<le> length vs
     \<and> (\<forall>cs. r = Inr cs \<longrightarrow> length new = length vs)
     \<and> (\<forall>i < length new. \<exists>n. coerce (vs ! i) = Inr n \<and> base (new ! i) = num_div n mx
           \<and> map_of (bstyle (new ! i)) (js ''height'') = Some (bar_height (num_div n mx))
           \<and> map_of (bstyle (new ! i)) (js ''transform'') = Some (bar_scale (num_div n mx)))"
proof (induction vs arbitrary: idx cols bars)
  case Nil
  then show ?case by simp
next
  case (Cons raw rest)
  show ?case
  proof (cases "bar_column a l mx raw idx")
    case (Inl err)
    with Cons.prems show ?thesis by auto
  next
    case (Inr cb)
    obtain col b where cb: "cb = (col, b)" by (cases cb)
    from Inr cb Cons.prems
    have "bars_forEach a l mx rest (Suc idx) (cols @ [col]) (bars @ [b]) = (bars', r)"
      by simp
    from Cons.IH [OF this] obtain new where new:
      "bars' = (bars @ [b]) @ new" "length new \<le> length rest"
      "\<forall>cs. r = Inr cs \<longrightarrow> length new = length rest"
      "\<forall>i < length new. \<exists>n. coerce (rest ! i) = Inr n \<and> base (new ! i) = num_div n mx
           \<and> map_of (bstyle (new ! i)) (js ''height'') = Some (bar_height (num_div n mx))
           \<and> map_of (bstyle (new ! i)) (js ''transform'') = Some (bar_scale (num_div n mx))"
      by blast
    from bar_column_Inr Inr cb obtain n where n:
      "coerce raw = Inr n" "base b = num_div n mx"
      "map_of (bstyle b) (js ''height'') = Some (bar_height (num_div n mx))"
      "map_of (bstyle b) (js ''transform'') = Some (bar_scale (num_div n mx))"
      by blast
    have "\<forall>i < length (b # new). \<exists>n. coerce ((raw # rest) ! i) = Inr n
           \<and> base ((b # new) ! i) = num_div n mx
           \<and> map_of (bstyle ((b # new) ! i)) (js ''height'') = Some (bar_height (num_div n mx))
           \<and> map_of (bstyle ((b # new) ! i)) (js ''transform'') = Some (bar_scale (num_div n mx))"
    proof (intro allI impI)
      fix i assume "i < length (b # new)"
      then show "\<exists>n. coerce ((raw # rest) ! i) = Inr n
           \<and> base ((b # new) ! i) = num_div n mx
           \<and> map_of (bstyle ((b # new) ! i)) (js ''height'') = Some (bar_height (num_div n mx))
           \<and> map_of (bstyle ((b # new) ! i)) (js ''transform'') = Some (bar_scale (num_div n mx))"
        using n new(4) by (cases i) auto
    qed
    with new(1,2,3) show ?thesis
      by (intro exI [of _ "b # new"]) auto
  qed
qed

lemma for_each_nth:
  "for_each f xs = Inr ys \<Longrightarrow>
   length ys = length xs \<and> (\<forall>i < length xs. f (xs ! i) = Inr (ys ! i))"
proof (induction xs arbitrary: ys)
  case Nil
  then show ?case by simp
next
  case (Cons x xs)
  from Cons.prems obtain y ys' where y: "f x = Inr y" "for_each f xs = Inr ys'" "ys = y # ys'"
    by (auto split: sum.splits)
  from Cons.IH [OF y(2)] y show ?case
    by (auto simp: nth_Cons split: nat.splits)
qed

lemma default_coerced:
  "for_each coerce default_values = Inr [Fin 38, Fin 52, Fin 24, Fin 71, Fin 43, Fin 66]"
  by (simp add: default_values_def coerce_def)

lemma default_max: "bars_max e default_values = Inr (Fin 71)"
  by (simp add: bars_max_def default_coerced Math_max_def argument_limit_def)

lemma setup_absent:
  "\<exists>st cst. MotionBars_setup e theme (Obj []) =
     Inr \<lparr> wrap_style = st, heading = [], chart_style = cst,
           chart_values = default_values, chart_labels = [], chart_max = Fin 71,
           chart_accent = Str (accent theme) \<rparr>"
  unfolding MotionBars_setup_def
  by (simp add: default_max text_if_def lit_def BASE_FONT_def HEADING_FONT_def coalesce_def)

lemma setup_values:
  "bars_max e vs = Inr mx \<Longrightarrow>
   \<exists>st cst. MotionBars_setup e theme (Obj [(js ''values'', Arr vs)]) =
     Inr \<lparr> wrap_style = st, heading = [], chart_style = cst,
           chart_values = vs, chart_labels = [], chart_max = mx,
           chart_accent = Str (accent theme) \<rparr>"
  unfolding MotionBars_setup_def
  by (simp add: text_if_def lit_def BASE_FONT_def HEADING_FONT_def coalesce_def js_def)

lemma default_bars:
  "\<exists>bars cols. bars_forEach (Str a) [] (Fin 71) default_values 0 [] [] = (bars, Inr cols)
     \<and> map base bars = [Fin (38/71), Fin (52/71), Fin (24/71), Fin 1, Fin (43/71), Fin (66/71)]"
  by (simp add: default_values_def bar_column_def coerce_def lit_def Let_def index_def
        coalesce_def)

lemma render_bars:
  assumes "MotionBars_setup e (getRootTheme e (clear this)) (parseProps (props this)) = Inr s"
    and "bars_forEach (chart_accent s) (chart_labels s) (chart_max s) (chart_values s) 0 [] []
           = (bars, r)"
  shows "barNodes (fst (MotionBars_render e this)) = bars"
    and "snd (MotionBars_render e this) = (case r of Inl err \<Rightarrow> Some err | Inr cols \<Rightarrow> None)"
  using assms by (auto simp: MotionBars_render_def Let_def appendChild_def split: sum.splits)

lemma parse_values:
  "parseProps (Some (js ''{\"values\":[38,52,24,71,43,66]}'')) = Obj [(js ''values'', Arr default_values)]"
  by (simp add: parseProps_def json_eval default_values_def)

text \<open>
  Claim C8. With no \<open>props\<close> attribute (the built-in values 38, 52, 24, 71, 43, 66), and
  with those values given in the attribute, the base proportions stored for the six bars
  are \<open>value / 71\<close>; the tallest bar's is 1. The component reads no maximum from its
  properties.
\<close>

theorem motion_bars_default_proportions:
  "map base (barNodes (fst (MotionBars_render e (this\<lparr>props := None\<rparr>))))
     = [Fin (38/71), Fin (52/71), Fin (24/71), Fin 1, Fin (43/71), Fin (66/71)]
   \<and> map base (barNodes (fst (MotionBars_render e
        (this\<lparr>props := Some (js ''{\"values\":[38,52,24,71,43,66]}'')\<rparr>))))
     = [Fin (38/71), Fin (52/71), Fin (24/71), Fin 1, Fin (43/71), Fin (66/71)]"
proof
  let ?a = "this\<lparr>props := None\<rparr>"
  let ?th = "getRootTheme e (clear ?a)"
  from setup_absent [of e ?th] obtain st cst where
    s: "MotionBars_setup e ?th (parseProps (props ?a)) =
     Inr \<lparr> wrap_style = st, heading = [], chart_style = cst,
           chart_values = default_values, chart_labels = [], chart_max = Fin 71,
           chart_accent = Str (accent ?th) \<rparr>"
    by (auto simp: parseProps_def)
  from default_bars [of "accent ?th"] obtain bars cols where
    b: "bars_forEach (Str (accent ?th)) [] (Fin 71) default_values 0 [] [] = (bars, Inr cols)"
       "map base bars = [Fin (38/71), Fin (52/71), Fin (24/71), Fin 1, Fin (43/71), Fin (66/71)]"
    by (elim exE conjE)
  from render_bars(1) [OF s] b
  show "map base (barNodes (fst (MotionBars_render e ?a)))
     = [Fin (38/71), Fin (52/71), Fin (24/71), Fin 1, Fin (43/71), Fin (66/71)]"
    by simp
next
  let ?a = "this\<lparr>props := Some (js ''{\"values\":[38,52,24,71,43,66]}'')\<rparr>"
  let ?th = "getRootTheme e (clear ?a)"
  from setup_values [OF default_max [of e], of ?th] obtain st cst where
    s: "MotionBars_setup e ?th (parseProps (props ?a)) =
     Inr \<lparr> wrap_style = st, heading = [], chart_style = cst,
           chart_values = default_values, chart_labels = [], chart_max = Fin 71,
           chart_accent = Str (accent ?th) \<rparr>"
    by (auto simp: parse_values)
  from default_bars [of "accent ?th"] obtain bars cols where
    b: "bars_forEach (Str (accent ?th)) [] (Fin 71) default_values 0 [] [] = (bars, Inr cols)"
       "map base bars = [Fin (38/71), Fin (52/71), Fin (24/71), Fin 1, Fin (43/71), Fin (66/71)]"
    by (elim exE conjE)
  from render_bars(1) [OF s] b
  show "map base (barNodes (fst (MotionBars_render e ?a)))
     = [Fin (38/71), Fin (52/71), Fin (24/71), Fin 1, Fin (43/71), Fin (66/71)]"
    by simp
qed

lemma bnd_eq_Inr: "bnd m f = Inr y \<longleftrightarrow> (\<exists>x. m = Inr x \<and> f x = Inr y)"
  by (cases m) auto

lemma setup_max:
  "MotionBars_setup e theme p = Inr s \<Longrightarrow> bars_max e (chart_values s) = Inr (chart_max s)"
  unfolding MotionBars_setup_def
  by (auto simp: bnd_eq_Inr Let_def)

lemma bars_max_Inr:
  "bars_max e vs = Inr mx \<Longrightarrow>
   \<exists>ns. for_each coerce vs = Inr ns \<and> length ns < argument_limit e
      \<and> mx = Math_max (ns @ [Fin 1])"
  by (auto simp: bars_max_def bnd_eq_Inr split: if_splits)

lemma coerce_not_NaN: "coerce v = Inr n \<Longrightarrow> n \<noteq> NaN"
  by (cases "ToNumber v") (auto simp: coerce_def split: if_splits)

lemma foldl_max2_not_NaN:
  "a \<noteq> NaN \<Longrightarrow> NaN \<notin> set ns \<Longrightarrow> foldl max2 a ns \<noteq> NaN"
proof (induction ns arbitrary: a)
  case Nil
  then show ?case by simp
next
  case (Cons n ns)
  from Cons.prems have "max2 a n \<noteq> NaN"
    by (cases a; cases n) auto
  with Cons show ?case by simp
qed

lemma max2_one: "b \<noteq> NaN \<Longrightarrow> max2 b (Fin 1) = PInf \<or> (\<exists>m. max2 b (Fin 1) = Fin m \<and> 1 \<le> m)"
  by (cases b) auto

lemma divisor_at_least_one:
  assumes "for_each coerce vs = Inr ns"
  shows "Math_max (ns @ [Fin 1]) = PInf \<or> (\<exists>m. Math_max (ns @ [Fin 1]) = Fin m \<and> 1 \<le> m)"
proof -
  have "NaN \<notin> set ns"
  proof
    assume "NaN \<in> set ns"
    then obtain i where i: "i < length ns" "ns ! i = NaN"
      by (auto simp: in_set_conv_nth)
    with for_each_nth [OF assms] have "coerce (vs ! i) = Inr NaN" by auto
    then show False by (auto dest: coerce_not_NaN)
  qed
  then have "foldl max2 NInf ns \<noteq> NaN"
    by (intro foldl_max2_not_NaN) simp_all
  from max2_one [OF this] show ?thesis
    by (simp add: Math_max_def)
qed

lemma bar_of_finite_value:
  assumes "mx = PInf \<or> (\<exists>m. mx = Fin m \<and> 1 \<le> m)"
  shows "\<exists>b h sc. num_div (Fin x) mx = Fin b
     \<and> bar_height (num_div (Fin x) mx) = [NumStr (Fin h), Lit (js ''%'')] \<and> 10 \<le> h
     \<and> bar_scale (num_div (Fin x) mx)
         = [Lit (js ''scaleY(''), NumStr (Fin sc), Lit (js '')'')] \<and> 1 / 10 \<le> sc"
proof -
  from assms consider "mx = PInf" | m where "mx = Fin m" "1 \<le> m"
    by blast
  then show ?thesis
  proof cases
    case 1
    then show ?thesis
      by (intro exI [of _ 0] exI [of _ 10] exI [of _ "1 / 10"])
         (simp add: bar_height_def bar_scale_def Math_max_def)
  next
    case 2
    have "1 / 10 \<le> max (1 / 10) (x / m)"
      by simp
    then have "(1 / 10) * 100 \<le> max (1 / 10) (x / m) * 100"
      by (rule mult_right_mono) simp
    then have "10 \<le> max (1 / 10) (x / m) * 100"
      by simp
    with 2 \<open>1 / 10 \<le> max (1 / 10) (x / m)\<close> show ?thesis
      by (simp add: bar_height_def bar_scale_def Math_max_def)
  qed
qed

text \<open>
  What the guards of \<open>render\<close> achieve, for every values sequence. Where \<open>render\<close>
  reaches the bars, the divisor is the maximum of the coerced values and 1: a finite
  number not below 1, or \<open>Infinity\<close>; never zero and never \<open>NaN\<close>. Every bar created for
  a value that coerces to a finite number has a finite base proportion, a height of at
  least 10 percent and an initial \<open>scaleY\<close> factor of at least 0.1, whatever the other
  values are. There is a bar for every value unless a later conversion throws.
\<close>

lemma bars_of_finite_values:
  assumes su: "MotionBars_setup e (getRootTheme e (clear this)) (parseProps (props this)) = Inr s"
  shows "\<exists>ns. for_each coerce (chart_values s) = Inr ns
     \<and> chart_max s = Math_max (ns @ [Fin 1])
     \<and> (chart_max s = PInf \<or> (\<exists>m. chart_max s = Fin m \<and> 1 \<le> m))
     \<and> length (barNodes (fst (MotionBars_render e this))) \<le> length ns
     \<and> (snd (MotionBars_render e this) = None \<longrightarrow>
          length (barNodes (fst (MotionBars_render e this))) = length ns)
     \<and> (\<forall>i < length (barNodes (fst (MotionBars_render e this))). \<forall>x. ns ! i = Fin x \<longrightarrow>
          (\<exists>b h sc.
             base (barNodes (fst (MotionBars_render e this)) ! i) = Fin b
             \<and> map_of (bstyle (barNodes (fst (MotionBars_render e this)) ! i)) (js ''height'')
                 = Some [NumStr (Fin h), Lit (js ''%'')]
             \<and> 10 \<le> h
             \<and> map_of (bstyle (barNodes (fst (MotionBars_render e this)) ! i)) (js ''transform'')
                 = Some [Lit (js ''scaleY(''), NumStr (Fin sc), Lit (js '')'')]
             \<and> 1 / 10 \<le> sc))"
proof -
  from su have "bars_max e (chart_values s) = Inr (chart_max s)"
    by (rule setup_max)
  from bars_max_Inr [OF this] obtain ns where
    ns: "for_each coerce (chart_values s) = Inr ns"
    and mx: "chart_max s = Math_max (ns @ [Fin 1])"
    by (elim exE conjE)
  from divisor_at_least_one [OF ns] mx
  have dv: "chart_max s = PInf \<or> (\<exists>m. chart_max s = Fin m \<and> 1 \<le> m)"
    by simp
  obtain bars r where
    fe: "bars_forEach (chart_accent s) (chart_labels s) (chart_max s) (chart_values s) 0 [] []
           = (bars, r)"
    by (cases "bars_forEach (chart_accent s) (chart_labels s) (chart_max s) (chart_values s) 0 [] []")
  note rb = render_bars [OF su fe]
  from for_each_nth [OF ns] have len: "length ns = length (chart_values s)"
    and nth: "\<forall>i < length (chart_values s). coerce (chart_values s ! i) = Inr (ns ! i)"
    by auto
  from bars_forEach_new [OF fe] have
    l1: "length bars \<le> length (chart_values s)"
    and l2: "\<forall>cs. r = Inr cs \<longrightarrow> length bars = length (chart_values s)"
    and each: "\<forall>i < length bars. \<exists>n. coerce (chart_values s ! i) = Inr n
           \<and> base (bars ! i) = num_div n (chart_max s)
           \<and> map_of (bstyle (bars ! i)) (js ''height'') = Some (bar_height (num_div n (chart_max s)))
           \<and> map_of (bstyle (bars ! i)) (js ''transform'') = Some (bar_scale (num_div n (chart_max s)))"
    by auto
  have "\<forall>i < length bars. \<forall>x. ns ! i = Fin x \<longrightarrow>
          (\<exists>b h sc. base (bars ! i) = Fin b
             \<and> map_of (bstyle (bars ! i)) (js ''height'') = Some [NumStr (Fin h), Lit (js ''%'')]
             \<and> 10 \<le> h
             \<and> map_of (bstyle (bars ! i)) (js ''transform'')
                 = Some [Lit (js ''scaleY(''), NumStr (Fin sc), Lit (js '')'')]
             \<and> 1 / 10 \<le> sc)"
  proof (intro allI impI)
    fix i x assume i: "i < length bars" and x: "ns ! i = Fin x"
    from i l1 have "i < length (chart_values s)" by simp
    with nth x have c: "coerce (chart_values s ! i) = Inr (Fin x)" by simp
    from each i c have b: "base (bars ! i) = num_div (Fin x) (chart_max s)"
      and h: "map_of (bstyle (bars ! i)) (js ''height'')
                = Some (bar_height (num_div (Fin x) (chart_max s)))"
      and t: "map_of (bstyle (bars ! i)) (js ''transform'')
                = Some (bar_scale (num_div (Fin x) (chart_max s)))"
      by auto
    from bar_of_finite_value [OF dv, of x] b h t
    show "\<exists>b h sc. base (bars ! i) = Fin b
             \<and> map_of (bstyle (bars ! i)) (js ''height'') = Some [NumStr (Fin h), Lit (js ''%'')]
             \<and> 10 \<le> h
             \<and> map_of (bstyle (bars ! i)) (js ''transform'')
                 = Some [Lit (js ''scaleY(''), NumStr (Fin sc), Lit (js '')'')]
             \<and> 1 / 10 \<le> sc"
      by auto
  qed
  with rb l1 l2 len mx dv ns show ?thesis
    by (auto split: sum.splits)
qed

text \<open>
  A values sequence with more entries than the host takes as arguments: \<open>Math.max\<close>
  throws before \<open>barNodes\<close> is reset, and the element is left without children.
\<close>

lemma render_too_many_values:
  assumes p: "parseProps (props this) = Obj [(js ''values'', Arr vs)]"
    and ns: "for_each coerce vs = Inr ns"
    and many: "argument_limit e \<le> length vs"
  shows "MotionBars_render e this = (clear this, Some RangeError)"
proof -
  from for_each_nth [OF ns] many have "argument_limit e < length ns + 1"
    by simp
  with ns have "bars_max e vs = Inl RangeError"
    by (simp add: bars_max_def)
  then have "MotionBars_setup e theme (Obj [(js ''values'', Arr vs)]) = Inl RangeError" for theme
    unfolding MotionBars_setup_def
    by (simp add: text_if_def lit_def BASE_FONT_def HEADING_FONT_def coalesce_def js_def)
  with p show ?thesis
    by (simp add: MotionBars_render_def Let_def)
qed

lemma infinity_string_coerced: "coerce (Str (js ''Infinity'')) = Inr PInf"
  by (simp add: coerce_def StringToNumber_def js_def trim_def is_space_def radix_literal_def
        unsigned_literal_def Let_def)

lemma tiny_literal_is_zero:
  "parseProps (Some (js ''{\"values\":[1e-400]}'')) = Obj [(js ''values'', Arr [Num (Fin 0)])]"
  by (simp add: parseProps_def json_eval)

text \<open>
  Claim C10 fails on the code. The guards \<open>|| 0\<close>, \<open>, 1\<close> and \<open>Math.max(0.1, base)\<close> keep
  the divisor from zero and a bar from less than a tenth, but none of them meets an
  infinite value. The JSON number \<open>1e400\<close> is beyond the double range and decodes to
  \<open>Infinity\<close>; the divisor is then \<open>Infinity\<close>, the base proportion of the bar is
  \<open>Infinity / Infinity\<close>, which is \<open>NaN\<close> and not a finite number, and the height and the
  scale factor assigned to it are \<open>NaN%\<close> and \<open>scaleY(NaN)\<close>.
\<close>

theorem bars_infinite_value_not_finite:
  "snd (MotionBars_render env0
       (el0 (js ''motion-bars'') (Some (js ''{\"values\":[1e400]}'')))) = None
   \<and> length (barNodes (fst (MotionBars_render env0
       (el0 (js ''motion-bars'') (Some (js ''{\"values\":[1e400]}'')))))) = 1
   \<and> base (barNodes (fst (MotionBars_render env0
       (el0 (js ''motion-bars'') (Some (js ''{\"values\":[1e400]}''))))) ! 0) = NaN
   \<and> \<not> is_finite (base (barNodes (fst (MotionBars_render env0
       (el0 (js ''motion-bars'') (Some (js ''{\"values\":[1e400]}''))))) ! 0))
   \<and> map_of (bstyle (barNodes (fst (MotionBars_render env0
       (el0 (js ''motion-bars'') (Some (js ''{\"values\":[1e400]}''))))) ! 0)) (js ''height'')
      = Some [NumStr NaN, Lit (js ''%'')]
   \<and> map_of (bstyle (barNodes (fst (MotionBars_render env0
       (el0 (js ''motion-bars'') (Some (js ''{\"values\":[1e400]}''))))) ! 0)) (js ''transform'')
      = Some [Lit (js ''scaleY(''), NumStr NaN, Lit (js '')'')]"
proof -
  let ?a = "el0 (js ''motion-bars'') (Some (js ''{\"values\":[1e400]}''))"
  let ?th = "getRootTheme env0 (clear ?a)"
  have p: "parseProps (props ?a) = Obj [(js ''values'', Arr [Num PInf])]"
    by (simp add: el0_def parseProps_def json_eval)
  have mx: "bars_max env0 [Num PInf] = Inr PInf"
    by (simp add: bars_max_def coerce_def Math_max_def argument_limit_def)
  from setup_values [OF mx, of ?th] p obtain st cst where
    s: "MotionBars_setup env0 ?th (parseProps (props ?a)) =
     Inr \<lparr> wrap_style = st, heading = [], chart_style = cst,
           chart_values = [Num PInf], chart_labels = [], chart_max = PInf,
           chart_accent = Str (accent ?th) \<rparr>"
    by auto
  have "\<exists>col bst. bars_forEach (Str (accent ?th)) [] PInf [Num PInf] 0 [] []
      = ([\<lparr> base = NaN, bstyle = bst \<rparr>], Inr [col])
      \<and> map_of bst (js ''height'') = Some [NumStr NaN, Lit (js ''%'')]
      \<and> map_of bst (js ''transform'') = Some [Lit (js ''scaleY(''), NumStr NaN, Lit (js '')'')]"
    by (simp add: bar_column_def coerce_def lit_def Let_def index_def coalesce_def Math_max_def js_def)
  then obtain col bst where
    b: "bars_forEach (Str (accent ?th)) [] PInf [Num PInf] 0 [] []
      = ([\<lparr> base = NaN, bstyle = bst \<rparr>], Inr [col])"
      "map_of bst (js ''height'') = Some [NumStr NaN, Lit (js ''%'')]"
      "map_of bst (js ''transform'') = Some [Lit (js ''scaleY(''), NumStr NaN, Lit (js '')'')]"
    by (elim exE conjE)
  from render_bars [OF s] b(1)
  have "barNodes (fst (MotionBars_render env0 ?a)) = [\<lparr> base = NaN, bstyle = bst \<rparr>]"
    and "snd (MotionBars_render env0 ?a) = None"
    by simp_all
  with b(2,3) show ?thesis by simp
qed

section \<open>Timeline binding: results\<close>
lemma map_of_obj_put [simp]: "map_of (obj_put st k v) k = Some v"
  by (induction st) auto

lemma render_frame:
  "tagName (fst (MotionBars_render e this)) = tagName this"
  "ident (fst (MotionBars_render e this)) = ident this"
  "props (fst (MotionBars_render e this)) = props this"
  "ancestors (fst (MotionBars_render e this)) = ancestors this"
  "tickHandler (fst (MotionBars_render e this)) = tickHandler this"
  by (auto simp: MotionBars_render_def Let_def clear_def appendChild_def
      split: sum.splits prod.splits)

lemma closest_frame:
  "closest (fst (MotionBars_render e this)) = closest this"
  by (simp add: closest_def render_frame)

lemma tick_body_bars:
  "length (barNodes (tickHandler_body d c)) = length (barNodes c)"
  "i < length (barNodes c) \<Longrightarrow>
     barNodes (tickHandler_body d c) ! i
       = tick_bar (case d of None \<Rightarrow> Fin 0 | Some t \<Rightarrow> t) i (barNodes c ! i)"
  by (simp_all add: tickHandler_body_def Let_def)

lemma tick_bar_transform:
  "map_of (bstyle (tick_bar t i b)) (js ''transform'')
     = Some [Lit (js ''scaleY(''), NumStr (tick_scale t i (base b)), Lit (js '')'')]"
  "base (tick_bar t i b) = base b"
  by (simp_all add: tick_bar_def)

lemma default_render:
  assumes "props this = None"
  shows "snd (MotionBars_render e this) = None"
    and "map base (barNodes (fst (MotionBars_render e this)))
          = [Fin (38/71), Fin (52/71), Fin (24/71), Fin 1, Fin (43/71), Fin (66/71)]"
proof -
  let ?th = "getRootTheme e (clear this)"
  from setup_absent [of e ?th] assms obtain st cst where
    s: "MotionBars_setup e ?th (parseProps (props this)) =
     Inr \<lparr> wrap_style = st, heading = [], chart_style = cst,
           chart_values = default_values, chart_labels = [], chart_max = Fin 71,
           chart_accent = Str (accent ?th) \<rparr>"
    by (auto simp: parseProps_def)
  from default_bars [of "accent ?th"] obtain bars cols where
    b: "bars_forEach (Str (accent ?th)) [] (Fin 71) default_values 0 [] [] = (bars, Inr cols)"
       "map base bars = [Fin (38/71), Fin (52/71), Fin (24/71), Fin 1, Fin (43/71), Fin (66/71)]"
    by (elim exE conjE)
  from render_bars [OF s] b
  show "snd (MotionBars_render e this) = None"
    and "map base (barNodes (fst (MotionBars_render e this)))
          = [Fin (38/71), Fin (52/71), Fin (24/71), Fin 1, Fin (43/71), Fin (66/71)]"
    by simp_all
qed

lemma vml_root: "is_root_tag (js ''vml'')" "\<not> is_root_tag (js ''motion-bars'')"
  by (simp_all add: is_root_tag_def js_def)


lemma attached_facts:
  "listeners w_attached = (\<lambda>t. [])(10 := [TickHandler 0])"
  "closures w_attached = 1"
  "tickHandler (comp w_attached) = Some 0"
  "ancestors (comp w_attached) = [(js ''vml'', 10)]"
  "tagName (comp w_attached) = js ''motion-bars''"
  "props (comp w_attached) = None"
  "map base (barNodes (comp w_attached)) = [Fin (38/71), Fin (52/71), Fin (24/71), Fin 1, Fin (43/71), Fin (66/71)]"
proof -
  let ?c = "(comp world0)\<lparr>ancestors := [(js ''vml'', 10)]\<rparr>"
  have p: "props ?c = None" by (simp add: world0_def el0_def)
  obtain c where c: "MotionBars_render env0 ?c = (c, None)"
    using default_render(1) [OF p, of env0] by (cases "MotionBars_render env0 ?c") auto
  then have cf: "c = fst (MotionBars_render env0 ?c)" by simp
  have cl: "closest c = Some 10"
    unfolding cf closest_frame by (simp add: closest_def world0_def el0_def vml_root)
  have th: "tickHandler c = None" "ancestors c = [(js ''vml'', 10)]" "tagName c = js ''motion-bars''"
    "props c = None"
    unfolding cf render_frame by (simp_all add: world0_def el0_def)
  have w: "w_attached = bindTimeline (world0\<lparr>comp := c\<rparr>)"
    by (simp add: w_attached_def connectedCallback_def c)
  show "listeners w_attached = (\<lambda>t. [])(10 := [TickHandler 0])" "closures w_attached = 1"
    "tickHandler (comp w_attached) = Some 0" "ancestors (comp w_attached) = [(js ''vml'', 10)]"
    "tagName (comp w_attached) = js ''motion-bars''" "props (comp w_attached) = None"
    unfolding w by (simp_all add: bindTimeline_def cl th addEventListener_def world0_def Let_def)
  have bs: "map base (barNodes c) = [Fin (38/71), Fin (52/71), Fin (24/71), Fin 1, Fin (43/71), Fin (66/71)]"
    using default_render(2) [OF p, of env0] cf by simp
  show "map base (barNodes (comp w_attached)) = [Fin (38/71), Fin (52/71), Fin (24/71), Fin 1, Fin (43/71), Fin (66/71)]"
    unfolding w
    by (simp add: bindTimeline_def cl th addEventListener_def world0_def Let_def bs)
qed

lemma sin1_pos: "0 < sin (1::real)"
  by (rule sin_gt_zero_02) simp_all


lemma bar0: "map base bs = Fin (38/71) # rest \<Longrightarrow> 0 < length bs \<and> base (bs ! 0) = Fin (38/71)"
  by (cases bs) auto

lemma ticked_facts:
  "listeners w_ticked = (\<lambda>t. [])(10 := [TickHandler 0])"
  "tickHandler (comp w_ticked) = Some 0"
  "ancestors (comp w_ticked) = [(js ''vml'', 10)]"
  "tagName (comp w_ticked) = js ''motion-bars''"
  "0 < length (barNodes (comp w_ticked))"
  "base (barNodes (comp w_ticked) ! 0) = Fin (38/71)"
  "map_of (bstyle (barNodes (comp w_ticked) ! 0)) (js ''transform'')
     = Some [Lit (js ''scaleY(''), NumStr (Fin (7/10 * (38/71))), Lit (js '')'')]"
proof -
  from bar0 [OF attached_facts(7)] have b: "0 < length (barNodes (comp w_attached))"
    "base (barNodes (comp w_attached) ! 0) = Fin (38/71)" by auto
  have c: "comp w_ticked = tickHandler_body (Some (Fin 0)) (comp w_attached)"
    by (simp add: w_ticked_def dispatchTick_def attached_facts)
  show "listeners w_ticked = (\<lambda>t. [])(10 := [TickHandler 0])"
    by (simp add: w_ticked_def dispatchTick_def attached_facts)
  show "tickHandler (comp w_ticked) = Some 0" "ancestors (comp w_ticked) = [(js ''vml'', 10)]"
    "tagName (comp w_ticked) = js ''motion-bars''"
    unfolding c by (simp_all add: tickHandler_body_def attached_facts)
  show "0 < length (barNodes (comp w_ticked))"
    unfolding c using b by (simp add: tick_body_bars)
  show "base (barNodes (comp w_ticked) ! 0) = Fin (38/71)"
    unfolding c using b by (simp add: tick_body_bars tick_bar_transform)
  show "map_of (bstyle (barNodes (comp w_ticked) ! 0)) (js ''transform'')
     = Some [Lit (js ''scaleY(''), NumStr (Fin (7/10 * (38/71))), Lit (js '')'')]"
    unfolding c using b
    by (simp add: tick_body_bars tick_bar_transform tick_scale_def Math_max_def)
qed

lemma detached_facts:
  "listeners w_detached = listeners w_ticked" "barNodes (comp w_detached) = barNodes (comp w_ticked)"
  "ancestors (comp w_detached) = []" "tickHandler (comp w_detached) = Some 0"
  by (simp_all add: w_detached_def disconnectedCallback_def closest_def ticked_facts vml_root)

text \<open>
  Claim C1 fails on the code. \<open>disconnectedCallback\<close> looks for the presentation root
  with \<open>closest\<close> after the component has left its parent; it finds none, removes no
  listener, and the handler stays on the root. A later tick still runs it and rewrites the
  transform of the component's bars.
\<close>

theorem detach_keeps_listener:
  "(let w = run env0 world0 [Insert [(js ''vml'', 10)], Tick 10 (Some (Fin 0)), Remove 0];
        w' = step env0 w (Tick 10 (Some (Fin (1/2))))
    in ancestors (comp w) = []
       \<and> listeners w 10 = [TickHandler 0]
       \<and> map_of (bstyle (barNodes (comp w') ! 0)) (js ''transform'')
           \<noteq> map_of (bstyle (barNodes (comp w) ! 0)) (js ''transform''))"
proof -
  have r: "run env0 world0 [Insert [(js ''vml'', 10)], Tick 10 (Some (Fin 0)), Remove 0] = w_detached"
    by (simp add: run_def w_detached_def w_ticked_def w_attached_def)
  have c: "comp w_late_tick = tickHandler_body (Some (Fin (1/2))) (comp w_detached)"
    by (simp add: w_late_tick_def dispatchTick_def detached_facts ticked_facts)
  have s: "tick_scale (Fin (1/2)) 0 (Fin (38/71)) = Fin (38/71 * (7/10 + 3/10 * sin 1))"
    using sin1_pos by (simp add: tick_scale_def Math_max_def max_def)
  have t: "map_of (bstyle (barNodes (comp w_late_tick) ! 0)) (js ''transform'')
     = Some [Lit (js ''scaleY(''), NumStr (Fin (38/71 * (7/10 + 3/10 * sin 1))), Lit (js '')'')]"
    unfolding c using ticked_facts(5,6)
    by (simp add: tick_body_bars tick_bar_transform detached_facts s)
  have "38/71 * (7/10 + 3/10 * sin 1) \<noteq> 7/10 * (38/71 :: real)"
    using sin1_pos by simp
  with t show ?thesis
    unfolding r Let_def w_late_tick_def [symmetric]
    by (simp add: detached_facts ticked_facts)
qed

lemma removed_facts:
  "listeners w_removed = (\<lambda>t. [])(10 := [TickHandler 0])"
  "closures w_removed = 1"
  "tickHandler (comp w_removed) = Some 0"
  "ancestors (comp w_removed) = []"
  "tagName (comp w_removed) = js ''motion-bars''"
  "props (comp w_removed) = None"
  by (simp_all add: w_removed_def disconnectedCallback_def closest_def attached_facts vml_root)

text \<open>
  Claim C7 fails on the code for the same reason. The listener left behind on the first
  root is not removed when the component is inserted under another root either:
  \<open>bindTimeline\<close> removes the stored handler from the new root, where it never was, and
  registers a second one. The component then has two active subscriptions.
\<close>

theorem two_roots_two_listeners:
  "(let w = run env0 world0 [Insert [(js ''vml'', 10)], Remove 0, Insert [(js ''vml'', 20)]]
    in listeners w 10 = [TickHandler 0]
       \<and> listeners w 20 = [TickHandler 1]
       \<and> tickHandler (comp w) = Some 1
       \<and> subscriptions w [10, 20] = [(10, 0), (20, 1)])"
proof -
  have r: "run env0 world0 [Insert [(js ''vml'', 10)], Remove 0, Insert [(js ''vml'', 20)]] = w_moved"
    by (simp add: run_def w_moved_def w_removed_def w_attached_def)
  let ?c = "(comp w_removed)\<lparr>ancestors := [(js ''vml'', 20)]\<rparr>"
  have p: "props ?c = None" by (simp add: removed_facts)
  obtain c where c: "MotionBars_render env0 ?c = (c, None)"
    using default_render(1) [OF p, of env0] by (cases "MotionBars_render env0 ?c") auto
  then have cf: "c = fst (MotionBars_render env0 ?c)" by simp
  have cl: "closest c = Some 20"
    unfolding cf closest_frame by (simp add: closest_def removed_facts vml_root)
  have th: "tickHandler c = Some 0"
    unfolding cf render_frame by (simp add: removed_facts)
  have w: "w_moved = bindTimeline (w_removed\<lparr>comp := c\<rparr>)"
    by (simp add: w_moved_def connectedCallback_def c)
  have l: "listeners w_moved = (\<lambda>t. [])(10 := [TickHandler 0], 20 := [TickHandler 1])"
    and h: "tickHandler (comp w_moved) = Some 1"
    unfolding w
    by (simp_all add: bindTimeline_def cl th addEventListener_def removeEventListener_def
          removed_facts Let_def fun_upd_twist)
  show ?thesis
    unfolding r Let_def by (simp add: l h subscriptions_def)
qed

subsection \<open>What holds of the timeline binding\<close>

text \<open>
  A re-render changes no listener and not the stored handler. A tick changes the
  transforms of the bars and nothing else. While the component is only ever attached under
  one presentation root it has at most one tick handler registered, and none elsewhere.
  Removing the presentation root together with the component does unsubscribe.
\<close>

lemma attr_changed_fst:
  "fst (attributeChangedCallback e w) = w\<lparr>comp := fst (MotionBars_render e (comp w))\<rparr>"
  by (simp add: attributeChangedCallback_def split: prod.splits)

lemma rerender_keeps_subscription:
  "listeners (step e w (SetProps v)) = listeners w
   \<and> closures (step e w (SetProps v)) = closures w
   \<and> tickHandler (comp (step e w (SetProps v))) = tickHandler (comp w)"
  by (simp add: attr_changed_fst render_frame)

lemma tick_bars_base_zip:
  "length xs = length bs \<Longrightarrow>
   map base (map (\<lambda>(idx, br). tick_bar t idx br) (zip xs bs)) = map base bs"
  by (induction xs bs rule: list_induct2) (simp_all add: tick_bar_def)

lemma tick_bars_base:
  "map base (map (\<lambda>(idx, br). tick_bar t idx br) (zip [0 ..< length bs] bs)) = map base bs"
  by (rule tick_bars_base_zip) simp

lemma tick_body_frame:
  "tagName (tickHandler_body d c) = tagName c"
  "ancestors (tickHandler_body d c) = ancestors c"
  "tickHandler (tickHandler_body d c) = tickHandler c"
  "childNodes (tickHandler_body d c) = childNodes c"
  "props (tickHandler_body d c) = props c"
  "map base (barNodes (tickHandler_body d c)) = map base (barNodes c)"
  using tick_bars_base [of "case d of None \<Rightarrow> Fin 0 | Some t \<Rightarrow> t" "barNodes c"]
  by (simp_all add: tickHandler_body_def Let_def)

lemma run_listeners_frame:
  "tagName (foldl (run_listener d) c ls) = tagName c
   \<and> ancestors (foldl (run_listener d) c ls) = ancestors c
   \<and> tickHandler (foldl (run_listener d) c ls) = tickHandler c
   \<and> childNodes (foldl (run_listener d) c ls) = childNodes c
   \<and> props (foldl (run_listener d) c ls) = props c
   \<and> map base (barNodes (foldl (run_listener d) c ls)) = map base (barNodes c)"
proof (induction ls arbitrary: c)
  case Nil
  then show ?case by simp
next
  case (Cons l ls)
  show ?case
    using Cons.IH [of "run_listener d c l"]
    by (cases l) (simp_all add: tick_body_frame)
qed

lemma tick_only_transforms:
  "listeners (step e w (Tick t d)) = listeners w
   \<and> closures (step e w (Tick t d)) = closures w
   \<and> tickHandler (comp (step e w (Tick t d))) = tickHandler (comp w)
   \<and> childNodes (comp (step e w (Tick t d))) = childNodes (comp w)
   \<and> props (comp (step e w (Tick t d))) = props (comp w)
   \<and> map base (barNodes (comp (step e w (Tick t d)))) = map base (barNodes (comp w))"
  using run_listeners_frame [of d "comp w" "listeners w t"]
  by (simp add: dispatchTick_def)

lemma root_of_take:
  "root_of anc = None \<or> root_of anc = Some r \<Longrightarrow>
   root_of (take k anc) = None \<or> root_of (take k anc) = Some r"
proof (induction anc arbitrary: k)
  case Nil
  then show ?case by (simp add: root_of_def)
next
  case (Cons a anc)
  show ?case
  proof (cases k)
    case 0
    then show ?thesis by (simp add: root_of_def)
  next
    case (Suc k')
    obtain t i where a: "a = (t, i)" by (cases a)
    show ?thesis
    proof (cases "is_root_tag t")
      case True
      with Cons.prems a Suc show ?thesis by (simp add: root_of_def)
    next
      case False
      with Cons.prems a have "root_of anc = None \<or> root_of anc = Some r"
        by (simp add: root_of_def)
      from Cons.IH [OF this, of k'] False a Suc show ?thesis
        by (simp add: root_of_def)
    qed
  qed
qed

lemma closest_root_of:
  "\<not> is_root_tag (tagName c) \<Longrightarrow> closest c = root_of (ancestors c)"
  by (simp add: closest_def root_of_def)

lemma bind_one_root:
  assumes "one_root r w"
  shows "one_root r (bindTimeline w)"
proof (cases "closest (comp w)")
  case None
  with assms show ?thesis by (simp add: bindTimeline_def)
next
  case (Some r')
  from assms have nr: "\<not> is_root_tag (tagName (comp w))" by (simp add: one_root_def)
  with Some assms have r': "r' = r"
    by (auto simp: closest_root_of one_root_def)
  from assms have own: "\<And>t h. TickHandler h \<in> set (listeners w t) \<Longrightarrow> t = r \<and> tickHandler (comp w) = Some h"
    and dist: "\<And>t. distinct (listeners w t)"
    by (auto simp: one_root_def)
  show ?thesis
  proof (cases "tickHandler (comp w)")
    case None
    with own have no: "\<And>t h. TickHandler h \<notin> set (listeners w t)" by fastforce
    from None Some r' assms no dist show ?thesis
      by (auto simp: bindTimeline_def Let_def addEventListener_def one_root_def)
  next
    case (Some h0)
    with own have only: "\<And>t h. TickHandler h \<in> set (listeners w t) \<Longrightarrow> t = r \<and> h = h0" by fastforce
    from Some \<open>closest (comp w) = Some r'\<close> r' assms only dist show ?thesis
      by (auto simp: bindTimeline_def Let_def addEventListener_def removeEventListener_def
            one_root_def distinct_removeAll)
  qed
qed


lemma render_one_root:
  "one_root r w \<Longrightarrow> one_root r (w\<lparr>comp := fst (MotionBars_render e (comp w))\<rparr>)"
  by (simp add: one_root_def render_frame)

lemma disconnected_one_root:
  assumes "one_root r w"
  shows "one_root r (disconnectedCallback w)"
proof -
  have "one_root r (removeEventListener w t l)" for t l
    using assms by (auto simp: one_root_def removeEventListener_def distinct_removeAll)
  with assms show ?thesis
    by (simp add: disconnectedCallback_def split: option.splits)
qed

lemma connected_fst:
  "fst (connectedCallback e w) =
     (if snd (MotionBars_render e (comp w)) = None
      then bindTimeline (w\<lparr>comp := fst (MotionBars_render e (comp w))\<rparr>)
      else w\<lparr>comp := fst (MotionBars_render e (comp w))\<rparr>)"
  by (cases "MotionBars_render e (comp w)") (auto simp: connectedCallback_def split: option.splits)

lemma step_one_root:
  assumes "one_root r w" "under_root r ev"
  shows "one_root r (step e w ev)"
proof (cases ev)
  case (Insert anc)
  let ?w = "w\<lparr>comp := (comp w)\<lparr>ancestors := anc\<rparr>\<rparr>"
  from assms Insert have "one_root r ?w"
    by (simp add: one_root_def)
  then have "one_root r (?w\<lparr>comp := fst (MotionBars_render e (comp ?w))\<rparr>)"
    by (rule render_one_root)
  with Insert show ?thesis
    by (simp add: connected_fst bind_one_root)
next
  case (Remove k)
  let ?w = "w\<lparr>comp := (comp w)\<lparr>ancestors := take k (ancestors (comp w))\<rparr>\<rparr>"
  from assms have "root_of (take k (ancestors (comp w))) = None
      \<or> root_of (take k (ancestors (comp w))) = Some r"
    by (intro root_of_take) (simp add: one_root_def)
  with assms have "one_root r ?w"
    by (simp add: one_root_def)
  with Remove show ?thesis
    by (simp add: disconnected_one_root)
next
  case (SetProps v)
  let ?w = "w\<lparr>comp := (comp w)\<lparr>props := v\<rparr>\<rparr>"
  from assms have "one_root r ?w"
    by (simp add: one_root_def)
  then have "one_root r (?w\<lparr>comp := fst (MotionBars_render e (comp ?w))\<rparr>)"
    by (rule render_one_root)
  with SetProps show ?thesis
    by (simp add: attr_changed_fst)
next
  case (Tick t d)
  with assms run_listeners_frame [of d "comp w" "listeners w t"] show ?thesis
    by (simp add: one_root_def dispatchTick_def)
qed

lemma run_one_root:
  "one_root r w \<Longrightarrow> list_all (under_root r) evs \<Longrightarrow> one_root r (run e w evs)"
  unfolding run_def
  by (induction evs arbitrary: w) (simp_all add: step_one_root)

lemma at_most_one_tick:
  "distinct ls \<Longrightarrow> (\<And>h. TickHandler h \<in> set ls \<Longrightarrow> h = h0) \<Longrightarrow>
   length (concat (map (\<lambda>l. case l of TickHandler h \<Rightarrow> [(t, h)] | Foreign n \<Rightarrow> []) ls)) \<le> 1"
proof (induction ls)
  case Nil
  then show ?case by simp
next
  case (Cons l ls)
  show ?case
  proof (cases l)
    case (Foreign n)
    with Cons show ?thesis by simp
  next
    case (TickHandler h)
    with Cons.prems have h: "h = h0" by simp
    have "concat (map (\<lambda>l. case l of TickHandler h \<Rightarrow> [(t, h)] | Foreign n \<Rightarrow> []) ls) = []"
    proof -
      have "\<And>l'. l' \<in> set ls \<Longrightarrow> (case l' of TickHandler h \<Rightarrow> [(t, h)] | Foreign n \<Rightarrow> []) = []"
      proof -
        fix l' assume m: "l' \<in> set ls"
        show "(case l' of TickHandler h \<Rightarrow> [(t, h)] | Foreign n \<Rightarrow> []) = []"
        proof (cases l')
          case (Foreign n)
          then show ?thesis by simp
        next
          case (TickHandler h')
          with m Cons.prems(2) [of h'] have "h' = h0" by simp
          with TickHandler m h \<open>l = TickHandler h\<close> Cons.prems(1) show ?thesis by auto
        qed
      qed
      then show ?thesis by simp
    qed
    with TickHandler show ?thesis by simp
  qed
qed

lemma one_root_at_most_one:
  assumes "one_root r w"
  shows "length (subscriptions w [t]) \<le> 1 \<and> (t \<noteq> r \<longrightarrow> subscriptions w [t] = [])"
proof
  from assms have d: "distinct (listeners w t)"
    and own: "\<And>h. TickHandler h \<in> set (listeners w t) \<Longrightarrow> t = r \<and> tickHandler (comp w) = Some h"
    by (auto simp: one_root_def)
  show "length (subscriptions w [t]) \<le> 1"
  proof (cases "tickHandler (comp w)")
    case None
    with own have "\<And>h. TickHandler h \<in> set (listeners w t) \<Longrightarrow> h = 0" by fastforce
    from at_most_one_tick [OF d this] show ?thesis by (simp add: subscriptions_def)
  next
    case (Some h0)
    with own have "\<And>h. TickHandler h \<in> set (listeners w t) \<Longrightarrow> h = h0" by fastforce
    from at_most_one_tick [OF d this] show ?thesis by (simp add: subscriptions_def)
  qed
  show "t \<noteq> r \<longrightarrow> subscriptions w [t] = []"
  proof
    assume "t \<noteq> r"
    with own have "\<And>l. l \<in> set (listeners w t) \<Longrightarrow>
        (case l of TickHandler h \<Rightarrow> [(t, h)] | Foreign n \<Rightarrow> []) = []"
      by (auto split: listener.splits)
    then show "subscriptions w [t] = []" by (simp add: subscriptions_def)
  qed
qed

lemma root_removed_unsubscribes:
  assumes "\<not> is_root_tag (tagName (comp w))"
    and "root_of (take k (ancestors (comp w))) = Some r"
    and "tickHandler (comp w) = Some h"
  shows "TickHandler h \<notin> set (listeners (step e w (Remove k)) r)"
  using assms
  by (simp add: disconnectedCallback_def closest_root_of removeEventListener_def)

section \<open>Rendering: results\<close>


lemma sum_case_render:
  "(case (case m of Inl err \<Rightarrow> (c, Some err) | Inr wrap \<Rightarrow> (appendChild c wrap, None :: jserror option)) of (x, y) \<Rightarrow> P x y)
    = (case m of Inl err \<Rightarrow> P c (Some err) | Inr wrap \<Rightarrow> P (appendChild c wrap) None)"
  by (cases m) auto






lemma placeholder_keeps_children:
  assumes "childNodes this \<noteq> []"
  shows "DemoPlaceholder_connectedCallback e this = (this, None)"
    and "Fallback_connectedCallback this = (this, None)"
  using assms
  by (simp_all add: DemoPlaceholder_connectedCallback_def Fallback_connectedCallback_def)



lemma parse_items5: "parseProps (Some (js ''{\"items\":5}'')) = Obj [(js ''items'', Num (Fin 5))]"
  by (simp add: parseProps_def json_eval)

lemma parse_null: "parseProps (Some (js ''null'')) = Null"
  by (simp add: parseProps_def json_eval)

text \<open>
  Claim C2 fails on the code. \<open>render\<close> catches nothing. \<open>GridScreenElement\<close> loops over
  \<open>props.items ?? []\<close> without checking that it is iterable, so the attribute
  \<open>{"items":5}\<close> makes the loop throw; and the attribute \<open>null\<close> decodes to \<open>null\<close>,
  whose first property read throws in every \<open>render\<close>. The element is left without
  children.
\<close>

theorem render_throws:
  "render_step GridScreenElement env0 (el0 (js ''grid-screen'') (Some (js ''{\"items\":5}'')))
     = (el0 (js ''grid-screen'') (Some (js ''{\"items\":5}'')), Some TypeError)
   \<and> render_step TitleSlideElement env0 (el0 (js ''title-slide'') (Some (js ''null'')))
     = (el0 (js ''title-slide'') (Some (js ''null'')), Some TypeError)"
proof
  have "Grid_wrap e theme (Obj [(js ''items'', Num (Fin 5))]) = Inl TypeError" for e theme
    unfolding Grid_wrap_def
    by (simp add: lit_def str_def BASE_FONT_def coalesce_def js_def Let_def)
  then show "render_step GridScreenElement env0 (el0 (js ''grid-screen'') (Some (js ''{\"items\":5}'')))
     = (el0 (js ''grid-screen'') (Some (js ''{\"items\":5}'')), Some TypeError)"
    by (simp add: Grid_render_def Let_def el0_def parse_items5 clear_def)
next
  have "TitleSlide_wrap theme Null = Inl TypeError" for theme
    unfolding TitleSlide_wrap_def by simp
  then show "render_step TitleSlideElement env0 (el0 (js ''title-slide'') (Some (js ''null'')))
     = (el0 (js ''title-slide'') (Some (js ''null'')), Some TypeError)"
    by (simp add: TitleSlide_render_def Let_def el0_def parse_null clear_def)
qed

text \<open>
  The progress indicator clamps silently: the fill's width is the progress cut to the
  range from 0 to 100, so -10, 50 and 150 show as 0, 50 and 100 percent.
\<close>

lemma progress_clamped:
  "\<exists>st lbl barst fillst.
     ProgressBar_wrap theme (Obj [(js ''progress'', Num (Fin x))])
       = Inr (Element (js ''div'') st [] [lbl, Element (js ''div'') barst []
                [Element (js ''div'') fillst [] []]])
     \<and> map_of fillst (js ''width'') = Some [NumStr (Fin (max 0 (min 100 x))), Lit (js ''%'')]"
  unfolding ProgressBar_wrap_def
  by (simp add: lit_def str_def BASE_FONT_def coalesce_def makeText_def Math_max_def
        Math_min_def Let_def js_def)

lemma progress_examples:
  "max 0 (min 100 (-10 :: real)) = 0" "max 0 (min 100 (50 :: real)) = 50"
  "max 0 (min 100 (150 :: real)) = 100"
  by simp_all

section \<open>The registry: results\<close>

lemma names_ok: "sample_valid_name (js ''foo-bar'')" "sample_valid_name (js ''baz-qux'')"
  by (simp_all add: sample_valid_name_def hyphenated_def js_def)

lemma scan_page0: "scan_tags page0 = [js ''foo-bar'', js ''baz-qux'']"
  by (simp add: scan_tags_def page0_def set_add_def hyphenated_def js_def)

text \<open>
  Claim C9 fails on the code. \<open>registerFallbackComponents\<close> defines every tag with the one
  class \<open>FallbackElement\<close>, and the host refuses a constructor that is already defined
  under another name. With two unregistered hyphenated tags on the page the first is
  registered, the second \<open>define\<close> throws, and no later scan registers the second tag.
\<close>

theorem fallback_second_tag_refused:
  "registerFallbackComponents (Some reg0) page0
     = (Some (reg0\<lparr>definitions := [(js ''foo-bar'', FallbackElement)]\<rparr>), Some NotSupportedError)
   \<and> registerFallbackComponents (Some (reg0\<lparr>definitions := [(js ''foo-bar'', FallbackElement)]\<rparr>)) page0
     = (Some (reg0\<lparr>definitions := [(js ''foo-bar'', FallbackElement)]\<rparr>), Some NotSupportedError)
   \<and> customElements_get (reg0\<lparr>definitions := [(js ''foo-bar'', FallbackElement)]\<rparr>) (js ''baz-qux'') = None"
  by (simp add: registerFallbackComponents_def scan_page0 customElements_get_def
        customElements_define_def reg0_def names_ok) (simp add: js_def)

text \<open>
  With a single unregistered hyphenated tag the scan does register it, and a second scan
  changes nothing. An instance without child nodes gets one label showing its tag name on
  its first attach; a later attach finds the label and does nothing.
\<close>

lemma fallback_single_tag:
  assumes "scan_tags r = [t]" "valid_name reg t" "customElements_get reg t = None"
    and "FallbackElement \<notin> snd ` set (definitions reg)"
  shows "registerFallbackComponents (Some reg) r
           = (Some (reg\<lparr>definitions := definitions reg @ [(t, FallbackElement)]\<rparr>), None)"
    and "registerFallbackComponents
           (Some (reg\<lparr>definitions := definitions reg @ [(t, FallbackElement)]\<rparr>)) r
           = (Some (reg\<lparr>definitions := definitions reg @ [(t, FallbackElement)]\<rparr>), None)"
proof -
  from assms(3) have "t \<notin> fst ` set (definitions reg)"
    by (simp add: customElements_get_def map_of_eq_None_iff)
  with assms show "registerFallbackComponents (Some reg) r
           = (Some (reg\<lparr>definitions := definitions reg @ [(t, FallbackElement)]\<rparr>), None)"
    by (simp add: registerFallbackComponents_def customElements_define_def)
  from assms(3) show "registerFallbackComponents
           (Some (reg\<lparr>definitions := definitions reg @ [(t, FallbackElement)]\<rparr>)) r
           = (Some (reg\<lparr>definitions := definitions reg @ [(t, FallbackElement)]\<rparr>), None)"
    by (simp add: registerFallbackComponents_def assms(1) customElements_get_def map_add_def)
qed

lemma fallback_label:
  assumes "childNodes this = []"
  shows "\<exists>st. childNodes (fst (Fallback_connectedCallback this))
            = [Element (js ''div'') st [Lit (js ''<''), Lit (tagName this), Lit (js ''>'')] []]"
    and "snd (Fallback_connectedCallback this) = None"
    and "Fallback_connectedCallback (fst (Fallback_connectedCallback this))
           = (fst (Fallback_connectedCallback this), None)"
  using assms
  by (simp_all add: Fallback_connectedCallback_def lit_def appendChild_def)

text \<open>
  The catalog's own path does not run into the refusal: \<open>defineAlias\<close> makes a class of
  its own on every call, so one base class is registered under two names.
\<close>

lemma define_fresh:
  assumes "valid_name reg name" "name \<notin> fst ` set (definitions reg)"
    "k \<notin> snd ` set (definitions reg)"
  shows "define_tag reg name k = Inr (reg\<lparr>definitions := definitions reg @ [(name, k)]\<rparr>)"
proof -
  from assms(2) have "map_of (definitions reg) name = None"
    by (simp add: map_of_eq_None_iff)
  with assms show ?thesis
    by (simp add: define_tag_def customElements_get_def customElements_define_def)
qed

lemma two_aliases:
  assumes "valid_name reg n1" "valid_name reg n2" "n1 \<noteq> n2" "definitions reg = []"
  shows "bnd (defineAlias reg n1 b) (\<lambda>r. defineAlias r n2 b)
         = Inr (reg\<lparr>aliases := Suc (Suc (aliases reg)),
                  definitions := [(n1, Alias (aliases reg) b), (n2, Alias (Suc (aliases reg)) b)]\<rparr>)"
  using assms
  by (simp add: defineAlias_def define_fresh)

end
